theory Spec2Isabelle
  imports
    Complex_Main
    "HOL-Library.Product_Lexorder"
    "HOL-Library.List_Lexorder"
    "HOL-Library.Char_ord"
    "HOL-Library.Option_ord"
    "HOL-Library.Multiset"
begin

section \<open>Outback Stockbook: entities, store and operations\<close>

text \<open>
  A shallow embedding of \<^verbatim>\<open>stockbook/models/entities.py\<close>,
  \<^verbatim>\<open>stockbook/models/database.py\<close> and of the three UI flows that carry logic
  (\<^verbatim>\<open>QuickTreatmentDialog._on_accept\<close>, \<^verbatim>\<open>WeightsView._load_weights\<close>,
  \<^verbatim>\<open>MobsView._on_delete_mob\<close>).

  Conventions.
  \<^item> A \<^verbatim>\<open>datetime.date\<close> is its proleptic Gregorian ordinal (\<^verbatim>\<open>date.toordinal()\<close>), an
    \<open>int\<close>; the store keeps dates as ISO text, whose order is the order of the ordinals.
  \<^item> A \<^verbatim>\<open>datetime.datetime\<close> is an \<open>int\<close> (microseconds on some fixed axis); every call of
    \<^verbatim>\<open>datetime.now()\<close> is a parameter of the operation that makes it.
  \<^item> A Python \<^verbatim>\<open>float\<close> is a \<open>real\<close>.
  \<^item> Each dataclass is a record over the type of its \<^verbatim>\<open>id\<close> field: an entity has
    \<open>int option\<close> there (\<^verbatim>\<open>Optional[int]\<close>), a stored row has \<open>int\<close>
    (\<^verbatim>\<open>INTEGER PRIMARY KEY AUTOINCREMENT\<close>).
  \<^item> A table is the list of its rows in insertion order; \<^verbatim>\<open>sqlite_sequence\<close> holds the
    largest rowid each table ever had.
  \<^item> An operation takes the store and returns its outcome and the store after it;
    a Python exception is an \<open>Inl\<close> outcome.
\<close>

type_synonym date = int
type_synonym datetime = int

datatype error = IntegrityError | OverflowError | AttributeError | ZeroDivisionError

subsection \<open>Enumerations (entities.py)\<close>

datatype AnimalStatus = ALIVE | SOLD | DEAD | MISSING

datatype AnimalSex = MALE | FEMALE | STEER | WETHER

datatype Species = CATTLE | SHEEP

datatype EventType =
  MOVEMENT | TREATMENT | WEIGH | DEATH | SALE | BIRTH | PREGNANCY_TEST | JOINING | NOTE

datatype TreatmentRoute =
  ORAL | INJECTION_SC | INJECTION_IM | POUR_ON | SPRAY | EAR_TAG | INTRARUMINAL | OTHER

subsection \<open>Dataclasses (entities.py) and table rows (SCHEMA_SQL)\<close>

record 'i Paddock =
  pd_id :: 'i
  pd_name :: string
  pd_area_hectares :: "real option"
  pd_notes :: string
  pd_pic :: string
  pd_created_at :: "datetime option"
  pd_updated_at :: "datetime option"

record 'i Mob =
  mob_id :: 'i
  mob_name :: string
  mob_species :: Species
  mob_description :: string
  mob_current_paddock_id :: "int option"
  mob_created_at :: "datetime option"
  mob_updated_at :: "datetime option"

record 'i Animal =
  an_id :: 'i
  an_eid :: string
  an_visual_tag :: string
  an_species :: Species
  an_breed :: string
  an_sex :: AnimalSex
  an_date_of_birth :: "date option"
  an_status :: AnimalStatus
  an_mob_id :: "int option"
  an_dam_id :: "int option"
  an_sire_id :: "int option"
  an_notes :: string
  an_created_at :: "datetime option"
  an_updated_at :: "datetime option"

record 'i Product =
  pr_id :: 'i
  pr_name :: string
  pr_active_ingredient :: string
  pr_category :: string
  pr_meat_whp_days :: int
  pr_milk_whp_days :: int
  pr_esi_days :: int
  pr_default_dose :: string
  pr_default_route :: TreatmentRoute
  pr_notes :: string
  pr_created_at :: "datetime option"
  pr_updated_at :: "datetime option"

record 'i Event =
  ev_id :: 'i
  ev_event_type :: EventType
  ev_event_date :: date
  ev_animal_id :: "int option"
  ev_mob_id :: "int option"
  ev_notes :: string
  ev_recorded_by :: string
  ev_created_at :: "datetime option"

text \<open>
  The detail dataclasses have \<^verbatim>\<open>event_id: Optional[int]\<close>; the detail tables have
  \<^verbatim>\<open>event_id INTEGER NOT NULL\<close>. The second type parameter is the type of that field.
\<close>

record ('i, 'e) MovementEvent =
  mv_id :: 'i
  mv_event_id :: 'e
  mv_from_paddock_id :: "int option"
  mv_to_paddock_id :: "int option"
  mv_reason :: string
  mv_head_count :: int

record ('i, 'e) TreatmentEvent =
  tr_id :: 'i
  tr_event_id :: 'e
  tr_product_id :: "int option"
  tr_batch_number :: string
  tr_dose :: string
  tr_route :: TreatmentRoute
  tr_administered_by :: string
  tr_meat_whp_end :: "date option"
  tr_milk_whp_end :: "date option"
  tr_esi_end :: "date option"

record ('i, 'e) WeighEvent =
  wg_id :: 'i
  wg_event_id :: 'e
  wg_weight_kg :: real
  wg_condition_score :: "real option"

record 'i Task =
  tk_id :: 'i
  tk_title :: string
  tk_description :: string
  tk_due_date :: "date option"
  tk_source_event_id :: "int option"
  tk_animal_id :: "int option"
  tk_mob_id :: "int option"
  tk_completed :: bool
  tk_completed_at :: "datetime option"
  tk_created_at :: "datetime option"

record 'i PropertySettings =
  ps_id :: 'i
  ps_property_name :: string
  ps_pic :: string
  ps_owner_name :: string
  ps_address :: string
  ps_phone :: string
  ps_email :: string
  ps_created_at :: "datetime option"
  ps_updated_at :: "datetime option"

subsection \<open>The store\<close>

datatype table_name =
  T_property_settings | T_paddocks | T_mobs | T_animals | T_products | T_events
  | T_movement_events | T_treatment_events | T_weigh_events | T_tasks

record db =
  property_settings :: "int PropertySettings list"
  paddocks :: "int Paddock list"
  mobs :: "int Mob list"
  animals :: "int Animal list"
  products :: "int Product list"
  events :: "int Event list"
  movement_events :: "(int, int) MovementEvent list"
  treatment_events :: "(int, int) TreatmentEvent list"
  weigh_events :: "(int, int) WeighEvent list"
  tasks :: "int Task list"
  sqlite_sequence :: "table_name \<Rightarrow> int"

definition empty_db :: db where
  "empty_db = \<lparr>property_settings = [], paddocks = [], mobs = [], animals = [], products = [],
     events = [], movement_events = [], treatment_events = [], weigh_events = [], tasks = [],
     sqlite_sequence = (\<lambda>_. 0)\<rparr>"

text \<open>
  \<^verbatim>\<open>AUTOINCREMENT\<close>: the new rowid is one more than the largest rowid the table has ever
  had, which is the larger of the stored sequence value and of the rowids present.
\<close>

definition next_rowid :: "int list \<Rightarrow> int \<Rightarrow> int" where
  "next_rowid ids s = foldr max ids s + 1"

text \<open>
  A foreign key column (\<^verbatim>\<open>REFERENCES t(id)\<close>, \<^verbatim>\<open>PRAGMA foreign_keys = ON\<close>): NULL is always
  accepted, any other value must be the id of a row of the parent table.
\<close>

definition fk_ok :: "int option \<Rightarrow> int list \<Rightarrow> bool" where
  "fk_ok r ids = (case r of None \<Rightarrow> True | Some i \<Rightarrow> i \<in> set ids)"

text \<open>Python truthiness of an \<^verbatim>\<open>Optional[int]\<close>: \<^verbatim>\<open>None\<close> and \<^verbatim>\<open>0\<close> are false.\<close>

definition truthy :: "int option \<Rightarrow> bool" where
  "truthy r = (case r of None \<Rightarrow> False | Some i \<Rightarrow> i \<noteq> 0)"

text \<open>\<^verbatim>\<open>UPDATE t SET ... WHERE p\<close> and \<^verbatim>\<open>DELETE FROM t WHERE p\<close> on a table.\<close>

definition sql_update :: "('r \<Rightarrow> bool) \<Rightarrow> ('r \<Rightarrow> 'r) \<Rightarrow> 'r list \<Rightarrow> 'r list" where
  "sql_update p f rows = map (\<lambda>r. if p r then f r else r) rows"

definition sql_delete :: "('r \<Rightarrow> bool) \<Rightarrow> 'r list \<Rightarrow> 'r list" where
  "sql_delete p rows = filter (\<lambda>r. \<not> p r) rows"

text \<open>
  \<^verbatim>\<open>ORDER BY k DESC\<close>, stable. SQLite leaves the order of rows with equal keys open; the
  model keeps them in table order.
\<close>

definition sort_key_desc :: "('r \<Rightarrow> 'k::linorder) \<Rightarrow> 'r list \<Rightarrow> 'r list" where
  "sort_key_desc f rows = rev (sort_key f (rev rows))"

subsection \<open>Paddock operations (database.py)\<close>

definition save_paddock ::
    "datetime \<Rightarrow> int option Paddock \<Rightarrow> db \<Rightarrow> (error + int option Paddock) \<times> db" where
  "save_paddock now paddock db =
     (case pd_id paddock of
        None \<Rightarrow>
          (let rowid = next_rowid (map pd_id (paddocks db)) (sqlite_sequence db T_paddocks);
               row = \<lparr>pd_id = rowid, pd_name = pd_name paddock,
                      pd_area_hectares = pd_area_hectares paddock, pd_notes = pd_notes paddock,
                      pd_pic = pd_pic paddock, pd_created_at = Some now,
                      pd_updated_at = Some now\<rparr>
           in (Inr (paddock\<lparr>pd_id := Some rowid, pd_created_at := Some now,
                            pd_updated_at := Some now\<rparr>),
               db\<lparr>paddocks := paddocks db @ [row],
                  sqlite_sequence := (sqlite_sequence db)(T_paddocks := rowid)\<rparr>))
      | Some i \<Rightarrow>
          (Inr (paddock\<lparr>pd_updated_at := Some now\<rparr>),
           db\<lparr>paddocks :=
                sql_update (\<lambda>r. pd_id r = i)
                  (\<lambda>r. r\<lparr>pd_name := pd_name paddock,
                           pd_area_hectares := pd_area_hectares paddock,
                           pd_notes := pd_notes paddock, pd_pic := pd_pic paddock,
                           pd_updated_at := Some now\<rparr>)
                  (paddocks db)\<rparr>))"




text \<open>
  A delete is refused (\<^verbatim>\<open>IntegrityError\<close>) when a row it removes is still referenced by a
  foreign key; none of the references to paddocks, mobs, animals or products cascades.
\<close>

definition delete_paddock :: "int \<Rightarrow> db \<Rightarrow> (error + unit) \<times> db" where
  "delete_paddock paddock_id db =
     (if paddock_id \<in> set (map pd_id (paddocks db))
         \<and> (Some paddock_id \<in> set (map mob_current_paddock_id (mobs db))
            \<or> Some paddock_id \<in> set (map mv_from_paddock_id (movement_events db))
            \<or> Some paddock_id \<in> set (map mv_to_paddock_id (movement_events db)))
      then (Inl IntegrityError, db)
      else (Inr (), db\<lparr>paddocks := sql_delete (\<lambda>r. pd_id r = paddock_id) (paddocks db)\<rparr>))"

subsection \<open>Mob operations (database.py)\<close>

definition save_mob ::
    "datetime \<Rightarrow> int option Mob \<Rightarrow> db \<Rightarrow> (error + int option Mob) \<times> db" where
  "save_mob now mob db =
     (case mob_id mob of
        None \<Rightarrow>
          (if fk_ok (mob_current_paddock_id mob) (map pd_id (paddocks db)) then
             (let rowid = next_rowid (map mob_id (mobs db)) (sqlite_sequence db T_mobs);
                  row = \<lparr>mob_id = rowid, mob_name = mob_name mob,
                         mob_species = mob_species mob, mob_description = mob_description mob,
                         mob_current_paddock_id = mob_current_paddock_id mob,
                         mob_created_at = Some now, mob_updated_at = Some now\<rparr>
              in (Inr (mob\<lparr>mob_id := Some rowid, mob_created_at := Some now,
                           mob_updated_at := Some now\<rparr>),
                  db\<lparr>mobs := mobs db @ [row],
                     sqlite_sequence := (sqlite_sequence db)(T_mobs := rowid)\<rparr>))
           else (Inl IntegrityError, db))
      | Some i \<Rightarrow>
          (if i \<in> set (map mob_id (mobs db))
              \<and> \<not> fk_ok (mob_current_paddock_id mob) (map pd_id (paddocks db))
           then (Inl IntegrityError, db)
           else
             (Inr (mob\<lparr>mob_updated_at := Some now\<rparr>),
              db\<lparr>mobs :=
                   sql_update (\<lambda>r. mob_id r = i)
                     (\<lambda>r. r\<lparr>mob_name := mob_name mob, mob_species := mob_species mob,
                              mob_description := mob_description mob,
                              mob_current_paddock_id := mob_current_paddock_id mob,
                              mob_updated_at := Some now\<rparr>)
                     (mobs db)\<rparr>)))"

definition row_to_mob :: "int Mob \<Rightarrow> int option Mob" where
  "row_to_mob row =
     \<lparr>mob_id = Some (mob_id row), mob_name = mob_name row, mob_species = mob_species row,
      mob_description = mob_description row,
      mob_current_paddock_id = mob_current_paddock_id row,
      mob_created_at = mob_created_at row, mob_updated_at = mob_updated_at row\<rparr>"

definition get_mob :: "db \<Rightarrow> int \<Rightarrow> int option Mob option" where
  "get_mob db i = map_option row_to_mob (find (\<lambda>r. mob_id r = i) (mobs db))"


definition get_mob_animal_count :: "db \<Rightarrow> int \<Rightarrow> nat" where
  "get_mob_animal_count db i =
     length (filter (\<lambda>a. an_mob_id a = Some i \<and> an_status a = ALIVE) (animals db))"

subsection \<open>Animal operations (database.py)\<close>

text \<open>
  \<^verbatim>\<open>dam_id\<close> and \<^verbatim>\<open>sire_id\<close> reference the animals table itself; the check is made
  when the statement ends, so a row may name itself.
\<close>

definition save_animal ::
    "datetime \<Rightarrow> int option Animal \<Rightarrow> db \<Rightarrow> (error + int option Animal) \<times> db" where
  "save_animal now animal db =
     (case an_id animal of
        None \<Rightarrow>
          (let rowid = next_rowid (map an_id (animals db)) (sqlite_sequence db T_animals);
               row = \<lparr>an_id = rowid, an_eid = an_eid animal,
                      an_visual_tag = an_visual_tag animal, an_species = an_species animal,
                      an_breed = an_breed animal, an_sex = an_sex animal,
                      an_date_of_birth = an_date_of_birth animal,
                      an_status = an_status animal, an_mob_id = an_mob_id animal,
                      an_dam_id = an_dam_id animal, an_sire_id = an_sire_id animal,
                      an_notes = an_notes animal, an_created_at = Some now,
                      an_updated_at = Some now\<rparr>
           in if fk_ok (an_mob_id animal) (map mob_id (mobs db))
                 \<and> fk_ok (an_dam_id animal) (rowid # map an_id (animals db))
                 \<and> fk_ok (an_sire_id animal) (rowid # map an_id (animals db))
              then
                (Inr (animal\<lparr>an_id := Some rowid, an_created_at := Some now,
                             an_updated_at := Some now\<rparr>),
                 db\<lparr>animals := animals db @ [row],
                    sqlite_sequence := (sqlite_sequence db)(T_animals := rowid)\<rparr>)
              else (Inl IntegrityError, db))
      | Some i \<Rightarrow>
          (if i \<in> set (map an_id (animals db))
              \<and> \<not> (fk_ok (an_mob_id animal) (map mob_id (mobs db))
                    \<and> fk_ok (an_dam_id animal) (map an_id (animals db))
                    \<and> fk_ok (an_sire_id animal) (map an_id (animals db)))
           then (Inl IntegrityError, db)
           else
             (Inr (animal\<lparr>an_updated_at := Some now\<rparr>),
              db\<lparr>animals :=
                   sql_update (\<lambda>r. an_id r = i)
                     (\<lambda>r. r\<lparr>an_eid := an_eid animal, an_visual_tag := an_visual_tag animal,
                              an_species := an_species animal, an_breed := an_breed animal,
                              an_sex := an_sex animal,
                              an_date_of_birth := an_date_of_birth animal,
                              an_status := an_status animal, an_mob_id := an_mob_id animal,
                              an_dam_id := an_dam_id animal, an_sire_id := an_sire_id animal,
                              an_notes := an_notes animal, an_updated_at := Some now\<rparr>)
                     (animals db)\<rparr>)))"

definition row_to_animal :: "int Animal \<Rightarrow> int option Animal" where
  "row_to_animal row =
     \<lparr>an_id = Some (an_id row), an_eid = an_eid row, an_visual_tag = an_visual_tag row,
      an_species = an_species row, an_breed = an_breed row, an_sex = an_sex row,
      an_date_of_birth = an_date_of_birth row, an_status = an_status row,
      an_mob_id = an_mob_id row, an_dam_id = an_dam_id row, an_sire_id = an_sire_id row,
      an_notes = an_notes row, an_created_at = an_created_at row,
      an_updated_at = an_updated_at row\<rparr>"

definition get_animal :: "db \<Rightarrow> int \<Rightarrow> int option Animal option" where
  "get_animal db i = map_option row_to_animal (find (\<lambda>r. an_id r = i) (animals db))"

definition get_animal_by_eid :: "db \<Rightarrow> string \<Rightarrow> int option Animal option" where
  "get_animal_by_eid db eid = map_option row_to_animal (find (\<lambda>r. an_eid r = eid) (animals db))"

definition animal_order :: "int Animal \<Rightarrow> string \<times> string" where
  "animal_order r = (an_visual_tag r, an_eid r)"


definition get_animals_by_mob :: "db \<Rightarrow> int \<Rightarrow> int option Animal list" where
  "get_animals_by_mob db i =
     map row_to_animal (sort_key animal_order (filter (\<lambda>r. an_mob_id r = Some i) (animals db)))"

definition delete_mob :: "int \<Rightarrow> db \<Rightarrow> (error + unit) \<times> db" where
  "delete_mob i db =
     (if i \<in> set (map mob_id (mobs db))
         \<and> (Some i \<in> set (map an_mob_id (animals db))
            \<or> Some i \<in> set (map ev_mob_id (events db))
            \<or> Some i \<in> set (map tk_mob_id (tasks db)))
      then (Inl IntegrityError, db)
      else (Inr (), db\<lparr>mobs := sql_delete (\<lambda>r. mob_id r = i) (mobs db)\<rparr>))"

text \<open>A row that names itself as dam or sire does not block its own deletion.\<close>

definition delete_animal :: "int \<Rightarrow> db \<Rightarrow> (error + unit) \<times> db" where
  "delete_animal i db =
     (if i \<in> set (map an_id (animals db))
         \<and> (Some i \<in> set (map an_dam_id (filter (\<lambda>r. an_id r \<noteq> i) (animals db)))
            \<or> Some i \<in> set (map an_sire_id (filter (\<lambda>r. an_id r \<noteq> i) (animals db)))
            \<or> Some i \<in> set (map ev_animal_id (events db))
            \<or> Some i \<in> set (map tk_animal_id (tasks db)))
      then (Inl IntegrityError, db)
      else (Inr (), db\<lparr>animals := sql_delete (\<lambda>r. an_id r = i) (animals db)\<rparr>))"




subsection \<open>Product operations (database.py)\<close>

definition save_product ::
    "datetime \<Rightarrow> int option Product \<Rightarrow> db \<Rightarrow> (error + int option Product) \<times> db" where
  "save_product now product db =
     (case pr_id product of
        None \<Rightarrow>
          (let rowid = next_rowid (map pr_id (products db)) (sqlite_sequence db T_products);
               row = \<lparr>pr_id = rowid, pr_name = pr_name product,
                      pr_active_ingredient = pr_active_ingredient product,
                      pr_category = pr_category product,
                      pr_meat_whp_days = pr_meat_whp_days product,
                      pr_milk_whp_days = pr_milk_whp_days product,
                      pr_esi_days = pr_esi_days product,
                      pr_default_dose = pr_default_dose product,
                      pr_default_route = pr_default_route product,
                      pr_notes = pr_notes product, pr_created_at = Some now,
                      pr_updated_at = Some now\<rparr>
           in (Inr (product\<lparr>pr_id := Some rowid, pr_created_at := Some now,
                            pr_updated_at := Some now\<rparr>),
               db\<lparr>products := products db @ [row],
                  sqlite_sequence := (sqlite_sequence db)(T_products := rowid)\<rparr>))
      | Some i \<Rightarrow>
          (Inr (product\<lparr>pr_updated_at := Some now\<rparr>),
           db\<lparr>products :=
                sql_update (\<lambda>r. pr_id r = i)
                  (\<lambda>r. r\<lparr>pr_name := pr_name product,
                           pr_active_ingredient := pr_active_ingredient product,
                           pr_category := pr_category product,
                           pr_meat_whp_days := pr_meat_whp_days product,
                           pr_milk_whp_days := pr_milk_whp_days product,
                           pr_esi_days := pr_esi_days product,
                           pr_default_dose := pr_default_dose product,
                           pr_default_route := pr_default_route product,
                           pr_notes := pr_notes product, pr_updated_at := Some now\<rparr>)
                  (products db)\<rparr>))"

definition row_to_product :: "int Product \<Rightarrow> int option Product" where
  "row_to_product row =
     \<lparr>pr_id = Some (pr_id row), pr_name = pr_name row,
      pr_active_ingredient = pr_active_ingredient row, pr_category = pr_category row,
      pr_meat_whp_days = pr_meat_whp_days row, pr_milk_whp_days = pr_milk_whp_days row,
      pr_esi_days = pr_esi_days row, pr_default_dose = pr_default_dose row,
      pr_default_route = pr_default_route row, pr_notes = pr_notes row,
      pr_created_at = pr_created_at row, pr_updated_at = pr_updated_at row\<rparr>"

definition get_product :: "db \<Rightarrow> int \<Rightarrow> int option Product option" where
  "get_product db i = map_option row_to_product (find (\<lambda>r. pr_id r = i) (products db))"


definition delete_product :: "int \<Rightarrow> db \<Rightarrow> (error + unit) \<times> db" where
  "delete_product i db =
     (if i \<in> set (map pr_id (products db))
         \<and> Some i \<in> set (map tr_product_id (treatment_events db))
      then (Inl IntegrityError, db)
      else (Inr (), db\<lparr>products := sql_delete (\<lambda>r. pr_id r = i) (products db)\<rparr>))"

subsection \<open>Event operations (database.py)\<close>

definition save_event ::
    "datetime \<Rightarrow> int option Event \<Rightarrow> db \<Rightarrow> (error + int option Event) \<times> db" where
  "save_event now event db =
     (case ev_id event of
        None \<Rightarrow>
          (if fk_ok (ev_animal_id event) (map an_id (animals db))
              \<and> fk_ok (ev_mob_id event) (map mob_id (mobs db))
           then
             (let rowid = next_rowid (map ev_id (events db)) (sqlite_sequence db T_events);
                  row = \<lparr>ev_id = rowid, ev_event_type = ev_event_type event,
                         ev_event_date = ev_event_date event,
                         ev_animal_id = ev_animal_id event, ev_mob_id = ev_mob_id event,
                         ev_notes = ev_notes event, ev_recorded_by = ev_recorded_by event,
                         ev_created_at = Some now\<rparr>
              in (Inr (event\<lparr>ev_id := Some rowid, ev_created_at := Some now\<rparr>),
                  db\<lparr>events := events db @ [row],
                     sqlite_sequence := (sqlite_sequence db)(T_events := rowid)\<rparr>))
           else (Inl IntegrityError, db))
      | Some i \<Rightarrow>
          (if i \<in> set (map ev_id (events db))
              \<and> \<not> (fk_ok (ev_animal_id event) (map an_id (animals db))
                    \<and> fk_ok (ev_mob_id event) (map mob_id (mobs db)))
           then (Inl IntegrityError, db)
           else
             (Inr event,
              db\<lparr>events :=
                   sql_update (\<lambda>r. ev_id r = i)
                     (\<lambda>r. r\<lparr>ev_event_type := ev_event_type event,
                              ev_event_date := ev_event_date event,
                              ev_animal_id := ev_animal_id event,
                              ev_mob_id := ev_mob_id event, ev_notes := ev_notes event,
                              ev_recorded_by := ev_recorded_by event\<rparr>)
                     (events db)\<rparr>)))"

text \<open>
  The typed saves set the event's type, save the base event (which commits), and then
  write the detail row. When the detail statement is refused the base event stays saved.
  The update branch of each leaves \<^verbatim>\<open>event_id\<close> of the detail row as it is.
\<close>

definition save_movement_event ::
    "datetime \<Rightarrow> int option Event \<Rightarrow> (int option, int option) MovementEvent \<Rightarrow> db
     \<Rightarrow> (error + int option Event \<times> (int option, int option) MovementEvent) \<times> db" where
  "save_movement_event now event movement db =
     (case save_event now (event\<lparr>ev_event_type := MOVEMENT\<rparr>) db of
        (Inl e, db1) \<Rightarrow> (Inl e, db1)
      | (Inr event1, db1) \<Rightarrow>
          (case mv_id movement of
             None \<Rightarrow>
               (case ev_id event1 of
                  None \<Rightarrow> (Inl IntegrityError, db1)
                | Some eid \<Rightarrow>
                    (if eid \<in> set (map ev_id (events db1))
                        \<and> fk_ok (mv_from_paddock_id movement) (map pd_id (paddocks db1))
                        \<and> fk_ok (mv_to_paddock_id movement) (map pd_id (paddocks db1))
                     then
                       (let rowid = next_rowid (map mv_id (movement_events db1))
                                      (sqlite_sequence db1 T_movement_events);
                            row = \<lparr>mv_id = rowid, mv_event_id = eid,
                                   mv_from_paddock_id = mv_from_paddock_id movement,
                                   mv_to_paddock_id = mv_to_paddock_id movement,
                                   mv_reason = mv_reason movement,
                                   mv_head_count = mv_head_count movement\<rparr>
                        in (Inr (event1, movement\<lparr>mv_id := Some rowid,
                                                   mv_event_id := Some eid\<rparr>),
                            db1\<lparr>movement_events := movement_events db1 @ [row],
                                sqlite_sequence :=
                                  (sqlite_sequence db1)(T_movement_events := rowid)\<rparr>))
                     else (Inl IntegrityError, db1)))
           | Some i \<Rightarrow>
               (if i \<in> set (map mv_id (movement_events db1))
                   \<and> \<not> (fk_ok (mv_from_paddock_id movement) (map pd_id (paddocks db1))
                         \<and> fk_ok (mv_to_paddock_id movement) (map pd_id (paddocks db1)))
                then (Inl IntegrityError, db1)
                else
                  (Inr (event1, movement),
                   db1\<lparr>movement_events :=
                         sql_update (\<lambda>r. mv_id r = i)
                           (\<lambda>r. r\<lparr>mv_from_paddock_id := mv_from_paddock_id movement,
                                    mv_to_paddock_id := mv_to_paddock_id movement,
                                    mv_reason := mv_reason movement,
                                    mv_head_count := mv_head_count movement\<rparr>)
                           (movement_events db1)\<rparr>))))"

definition save_treatment_event ::
    "datetime \<Rightarrow> int option Event \<Rightarrow> (int option, int option) TreatmentEvent \<Rightarrow> db
     \<Rightarrow> (error + int option Event \<times> (int option, int option) TreatmentEvent) \<times> db" where
  "save_treatment_event now event treatment db =
     (case save_event now (event\<lparr>ev_event_type := TREATMENT\<rparr>) db of
        (Inl e, db1) \<Rightarrow> (Inl e, db1)
      | (Inr event1, db1) \<Rightarrow>
          (case tr_id treatment of
             None \<Rightarrow>
               (case ev_id event1 of
                  None \<Rightarrow> (Inl IntegrityError, db1)
                | Some eid \<Rightarrow>
                    (if eid \<in> set (map ev_id (events db1))
                        \<and> fk_ok (tr_product_id treatment) (map pr_id (products db1))
                     then
                       (let rowid = next_rowid (map tr_id (treatment_events db1))
                                      (sqlite_sequence db1 T_treatment_events);
                            row = \<lparr>tr_id = rowid, tr_event_id = eid,
                                   tr_product_id = tr_product_id treatment,
                                   tr_batch_number = tr_batch_number treatment,
                                   tr_dose = tr_dose treatment, tr_route = tr_route treatment,
                                   tr_administered_by = tr_administered_by treatment,
                                   tr_meat_whp_end = tr_meat_whp_end treatment,
                                   tr_milk_whp_end = tr_milk_whp_end treatment,
                                   tr_esi_end = tr_esi_end treatment\<rparr>
                        in (Inr (event1, treatment\<lparr>tr_id := Some rowid,
                                                    tr_event_id := Some eid\<rparr>),
                            db1\<lparr>treatment_events := treatment_events db1 @ [row],
                                sqlite_sequence :=
                                  (sqlite_sequence db1)(T_treatment_events := rowid)\<rparr>))
                     else (Inl IntegrityError, db1)))
           | Some i \<Rightarrow>
               (if i \<in> set (map tr_id (treatment_events db1))
                   \<and> \<not> fk_ok (tr_product_id treatment) (map pr_id (products db1))
                then (Inl IntegrityError, db1)
                else
                  (Inr (event1, treatment),
                   db1\<lparr>treatment_events :=
                         sql_update (\<lambda>r. tr_id r = i)
                           (\<lambda>r. r\<lparr>tr_product_id := tr_product_id treatment,
                                    tr_batch_number := tr_batch_number treatment,
                                    tr_dose := tr_dose treatment,
                                    tr_route := tr_route treatment,
                                    tr_administered_by := tr_administered_by treatment,
                                    tr_meat_whp_end := tr_meat_whp_end treatment,
                                    tr_milk_whp_end := tr_milk_whp_end treatment,
                                    tr_esi_end := tr_esi_end treatment\<rparr>)
                           (treatment_events db1)\<rparr>))))"

definition save_weigh_event ::
    "datetime \<Rightarrow> int option Event \<Rightarrow> (int option, int option) WeighEvent \<Rightarrow> db
     \<Rightarrow> (error + int option Event \<times> (int option, int option) WeighEvent) \<times> db" where
  "save_weigh_event now event weigh db =
     (case save_event now (event\<lparr>ev_event_type := WEIGH\<rparr>) db of
        (Inl e, db1) \<Rightarrow> (Inl e, db1)
      | (Inr event1, db1) \<Rightarrow>
          (case wg_id weigh of
             None \<Rightarrow>
               (case ev_id event1 of
                  None \<Rightarrow> (Inl IntegrityError, db1)
                | Some eid \<Rightarrow>
                    (if eid \<in> set (map ev_id (events db1)) then
                       (let rowid = next_rowid (map wg_id (weigh_events db1))
                                      (sqlite_sequence db1 T_weigh_events);
                            row = \<lparr>wg_id = rowid, wg_event_id = eid,
                                   wg_weight_kg = wg_weight_kg weigh,
                                   wg_condition_score = wg_condition_score weigh\<rparr>
                        in (Inr (event1, weigh\<lparr>wg_id := Some rowid, wg_event_id := Some eid\<rparr>),
                            db1\<lparr>weigh_events := weigh_events db1 @ [row],
                                sqlite_sequence :=
                                  (sqlite_sequence db1)(T_weigh_events := rowid)\<rparr>))
                     else (Inl IntegrityError, db1)))
           | Some i \<Rightarrow>
               (Inr (event1, weigh),
                db1\<lparr>weigh_events :=
                      sql_update (\<lambda>r. wg_id r = i)
                        (\<lambda>r. r\<lparr>wg_weight_kg := wg_weight_kg weigh,
                                 wg_condition_score := wg_condition_score weigh\<rparr>)
                        (weigh_events db1)\<rparr>)))"

definition row_to_event :: "int Event \<Rightarrow> int option Event" where
  "row_to_event row =
     \<lparr>ev_id = Some (ev_id row), ev_event_type = ev_event_type row,
      ev_event_date = ev_event_date row, ev_animal_id = ev_animal_id row,
      ev_mob_id = ev_mob_id row, ev_notes = ev_notes row,
      ev_recorded_by = ev_recorded_by row, ev_created_at = ev_created_at row\<rparr>"



text \<open>
  \<^verbatim>\<open>ORDER BY event_date DESC, created_at DESC LIMIT ?\<close>. NULL is the smallest value of a
  column, as \<open>None\<close> is the smallest option; a negative limit is no limit.
\<close>

definition get_recent_events :: "db \<Rightarrow> int \<Rightarrow> int option Event list" where
  "get_recent_events db limit =
     (let rows = sort_key_desc (\<lambda>r. (ev_event_date r, ev_created_at r)) (events db) in
      map row_to_event (if limit < 0 then rows else take (nat limit) rows))"

definition get_treatment_details ::
    "db \<Rightarrow> int \<Rightarrow> (int option, int option) TreatmentEvent option" where
  "get_treatment_details db event_id =
     (case find (\<lambda>r. tr_event_id r = event_id) (treatment_events db) of
        Some row \<Rightarrow>
          Some \<lparr>tr_id = Some (tr_id row), tr_event_id = Some (tr_event_id row),
                tr_product_id = tr_product_id row, tr_batch_number = tr_batch_number row,
                tr_dose = tr_dose row, tr_route = tr_route row,
                tr_administered_by = tr_administered_by row,
                tr_meat_whp_end = tr_meat_whp_end row, tr_milk_whp_end = tr_milk_whp_end row,
                tr_esi_end = tr_esi_end row\<rparr>
      | None \<Rightarrow> None)"


definition get_weigh_details :: "db \<Rightarrow> int \<Rightarrow> (int option, int option) WeighEvent option" where
  "get_weigh_details db event_id =
     (case find (\<lambda>r. wg_event_id r = event_id) (weigh_events db) of
        Some row \<Rightarrow>
          Some \<lparr>wg_id = Some (wg_id row), wg_event_id = Some (wg_event_id row),
                wg_weight_kg = wg_weight_kg row,
                wg_condition_score = wg_condition_score row\<rparr>
      | None \<Rightarrow> None)"

subsection \<open>Withholding-period query (database.py)\<close>

record whp_row =
  w_animal_id :: int
  w_eid :: string
  w_visual_tag :: string
  w_event_id :: int
  w_event_date :: date
  w_meat_whp_end :: "date option"
  w_milk_whp_end :: "date option"
  w_esi_end :: "date option"
  w_product_name :: "string option"

text \<open>\<^verbatim>\<open>column >= ?\<close>: a NULL column does not satisfy the comparison.\<close>

definition on_or_after :: "date option \<Rightarrow> date \<Rightarrow> bool" where
  "on_or_after e x = (case e of None \<Rightarrow> False | Some d \<Rightarrow> d \<ge> x)"

text \<open>\<^verbatim>\<open>LEFT JOIN products p ON t.product_id = p.id\<close>, reduced to the selected \<^verbatim>\<open>p.name\<close>.\<close>

definition left_join_product_name :: "db \<Rightarrow> int option \<Rightarrow> string option list" where
  "left_join_product_name db product_id =
     (case filter (\<lambda>p. product_id = Some (pr_id p)) (products db) of
        [] \<Rightarrow> [None]
      | ps \<Rightarrow> map (\<lambda>p. Some (pr_name p)) ps)"

definition whp_join ::
    "db \<Rightarrow> ((int, int) TreatmentEvent \<times> int Event \<times> int Animal \<times> string option) list" where
  "whp_join db =
     [(t, e, a, p).
        t \<leftarrow> treatment_events db,
        e \<leftarrow> events db, tr_event_id t = ev_id e,
        a \<leftarrow> animals db, ev_animal_id e = Some (an_id a),
        p \<leftarrow> left_join_product_name db (tr_product_id t)]"

definition whp_where ::
    "date \<Rightarrow> (int, int) TreatmentEvent \<times> int Event \<times> int Animal \<times> string option \<Rightarrow> bool" where
  "whp_where as_of j =
     (case j of (t, e, a, p) \<Rightarrow>
        an_status a = ALIVE
        \<and> (on_or_after (tr_meat_whp_end t) as_of \<or> on_or_after (tr_milk_whp_end t) as_of
           \<or> on_or_after (tr_esi_end t) as_of))"

definition whp_order ::
    "(int, int) TreatmentEvent \<times> int Event \<times> int Animal \<times> string option
     \<Rightarrow> date option \<times> string" where
  "whp_order j = (case j of (t, e, a, p) \<Rightarrow> (tr_meat_whp_end t, an_visual_tag a))"

definition whp_select ::
    "(int, int) TreatmentEvent \<times> int Event \<times> int Animal \<times> string option \<Rightarrow> whp_row" where
  "whp_select j =
     (case j of (t, e, a, p) \<Rightarrow>
        \<lparr>w_animal_id = an_id a, w_eid = an_eid a, w_visual_tag = an_visual_tag a,
         w_event_id = ev_id e, w_event_date = ev_event_date e,
         w_meat_whp_end = tr_meat_whp_end t, w_milk_whp_end = tr_milk_whp_end t,
         w_esi_end = tr_esi_end t, w_product_name = p\<rparr>)"

text \<open>\<open>today\<close> is \<^verbatim>\<open>date.today()\<close>, used when \<^verbatim>\<open>as_of_date\<close> is \<^verbatim>\<open>None\<close>.\<close>

definition get_animals_on_whp :: "date \<Rightarrow> db \<Rightarrow> date option \<Rightarrow> whp_row list" where
  "get_animals_on_whp today db as_of_date =
     (let as_of = (case as_of_date of None \<Rightarrow> today | Some d \<Rightarrow> d) in
      map whp_select (sort_key whp_order (filter (whp_where as_of) (whp_join db))))"

subsection \<open>Dates\<close>

text \<open>
  \<^verbatim>\<open>d + timedelta(days=n)\<close>: \<^verbatim>\<open>timedelta\<close> refuses more than 999999999 days either way,
  and the sum must be a date, an ordinal from 1 (0001-01-01) to 3652059 (9999-12-31).
\<close>

definition date_add :: "date \<Rightarrow> int \<Rightarrow> error + date" where
  "date_add d n =
     (if \<bar>n\<bar> > 999999999 then Inl OverflowError
      else if 0 < d + n \<and> d + n \<le> 3652059 then Inr (d + n)
      else Inl OverflowError)"

subsection \<open>Task operations (database.py)\<close>

definition save_task ::
    "datetime \<Rightarrow> int option Task \<Rightarrow> db \<Rightarrow> (error + int option Task) \<times> db" where
  "save_task now task db =
     (case tk_id task of
        None \<Rightarrow>
          (if fk_ok (tk_source_event_id task) (map ev_id (events db))
              \<and> fk_ok (tk_animal_id task) (map an_id (animals db))
              \<and> fk_ok (tk_mob_id task) (map mob_id (mobs db))
           then
             (let rowid = next_rowid (map tk_id (tasks db)) (sqlite_sequence db T_tasks);
                  row = \<lparr>tk_id = rowid, tk_title = tk_title task,
                         tk_description = tk_description task, tk_due_date = tk_due_date task,
                         tk_source_event_id = tk_source_event_id task,
                         tk_animal_id = tk_animal_id task, tk_mob_id = tk_mob_id task,
                         tk_completed = tk_completed task,
                         tk_completed_at = tk_completed_at task, tk_created_at = Some now\<rparr>
              in (Inr (task\<lparr>tk_id := Some rowid, tk_created_at := Some now\<rparr>),
                  db\<lparr>tasks := tasks db @ [row],
                     sqlite_sequence := (sqlite_sequence db)(T_tasks := rowid)\<rparr>))
           else (Inl IntegrityError, db))
      | Some i \<Rightarrow>
          (if i \<in> set (map tk_id (tasks db))
              \<and> \<not> (fk_ok (tk_source_event_id task) (map ev_id (events db))
                    \<and> fk_ok (tk_animal_id task) (map an_id (animals db))
                    \<and> fk_ok (tk_mob_id task) (map mob_id (mobs db)))
           then (Inl IntegrityError, db)
           else
             (Inr task,
              db\<lparr>tasks :=
                   sql_update (\<lambda>r. tk_id r = i)
                     (\<lambda>r. r\<lparr>tk_title := tk_title task, tk_description := tk_description task,
                              tk_due_date := tk_due_date task,
                              tk_source_event_id := tk_source_event_id task,
                              tk_animal_id := tk_animal_id task, tk_mob_id := tk_mob_id task,
                              tk_completed := tk_completed task,
                              tk_completed_at := tk_completed_at task\<rparr>)
                     (tasks db)\<rparr>)))"

definition row_to_task :: "int Task \<Rightarrow> int option Task" where
  "row_to_task row =
     \<lparr>tk_id = Some (tk_id row), tk_title = tk_title row, tk_description = tk_description row,
      tk_due_date = tk_due_date row, tk_source_event_id = tk_source_event_id row,
      tk_animal_id = tk_animal_id row, tk_mob_id = tk_mob_id row,
      tk_completed = tk_completed row, tk_completed_at = tk_completed_at row,
      tk_created_at = tk_created_at row\<rparr>"

text \<open>
  \<^verbatim>\<open>WHERE completed = 0 AND (due_date IS NULL OR due_date <= ?)\<close>,
  \<^verbatim>\<open>ORDER BY due_date NULLS LAST, created_at\<close>.
\<close>

definition pending_where :: "date \<Rightarrow> int Task \<Rightarrow> bool" where
  "pending_where end_date r =
     (\<not> tk_completed r \<and> (case tk_due_date r of None \<Rightarrow> True | Some d \<Rightarrow> d \<le> end_date))"

definition pending_order :: "int Task \<Rightarrow> (nat \<times> date) \<times> datetime option" where
  "pending_order r =
     ((case tk_due_date r of None \<Rightarrow> (1, 0) | Some d \<Rightarrow> (0, d)), tk_created_at r)"

definition get_pending_tasks :: "date \<Rightarrow> db \<Rightarrow> int \<Rightarrow> error + int option Task list" where
  "get_pending_tasks today db days_ahead =
     (case date_add today days_ahead of
        Inl e \<Rightarrow> Inl e
      | Inr end_date \<Rightarrow>
          Inr (map row_to_task
                 (sort_key pending_order (filter (pending_where end_date) (tasks db)))))"

definition complete_task :: "datetime \<Rightarrow> int \<Rightarrow> db \<Rightarrow> (error + unit) \<times> db" where
  "complete_task now task_id db =
     (Inr (),
      db\<lparr>tasks :=
           sql_update (\<lambda>r. tk_id r = task_id)
             (\<lambda>r. r\<lparr>tk_completed := True, tk_completed_at := Some now\<rparr>) (tasks db)\<rparr>)"

definition delete_task :: "int \<Rightarrow> db \<Rightarrow> (error + unit) \<times> db" where
  "delete_task task_id db =
     (Inr (), db\<lparr>tasks := sql_delete (\<lambda>r. tk_id r = task_id) (tasks db)\<rparr>)"

subsection \<open>Property settings (database.py)\<close>

definition row_to_property_settings :: "int PropertySettings \<Rightarrow> int option PropertySettings" where
  "row_to_property_settings row =
     \<lparr>ps_id = Some (ps_id row), ps_property_name = ps_property_name row,
      ps_pic = ps_pic row, ps_owner_name = ps_owner_name row,
      ps_address = ps_address row, ps_phone = ps_phone row, ps_email = ps_email row,
      ps_created_at = ps_created_at row, ps_updated_at = ps_updated_at row\<rparr>"

definition get_property_settings :: "db \<Rightarrow> int option PropertySettings option" where
  "get_property_settings db =
     (case property_settings db of
        [] \<Rightarrow> None
      | row # _ \<Rightarrow> Some (row_to_property_settings row))"

definition save_property_settings ::
    "datetime \<Rightarrow> int option PropertySettings \<Rightarrow> db
     \<Rightarrow> (error + int option PropertySettings) \<times> db" where
  "save_property_settings now settings db =
     (case ps_id settings of
        None \<Rightarrow>
          (let rowid = next_rowid (map ps_id (property_settings db))
                         (sqlite_sequence db T_property_settings);
               row = \<lparr>ps_id = rowid, ps_property_name = ps_property_name settings,
                      ps_pic = ps_pic settings, ps_owner_name = ps_owner_name settings,
                      ps_address = ps_address settings, ps_phone = ps_phone settings,
                      ps_email = ps_email settings, ps_created_at = Some now,
                      ps_updated_at = Some now\<rparr>
           in (Inr (settings\<lparr>ps_id := Some rowid, ps_created_at := Some now,
                             ps_updated_at := Some now\<rparr>),
               db\<lparr>property_settings := property_settings db @ [row],
                  sqlite_sequence := (sqlite_sequence db)(T_property_settings := rowid)\<rparr>))
      | Some i \<Rightarrow>
          (Inr (settings\<lparr>ps_updated_at := Some now\<rparr>),
           db\<lparr>property_settings :=
                sql_update (\<lambda>r. ps_id r = i)
                  (\<lambda>r. r\<lparr>ps_property_name := ps_property_name settings,
                           ps_pic := ps_pic settings, ps_owner_name := ps_owner_name settings,
                           ps_address := ps_address settings, ps_phone := ps_phone settings,
                           ps_email := ps_email settings, ps_updated_at := Some now\<rparr>)
                  (property_settings db)\<rparr>))"

subsection \<open>Average daily gain (ui/views/weights.py)\<close>

text \<open>Python's \<^verbatim>\<open>/\<close>: a zero divisor raises.\<close>

definition py_truediv :: "real \<Rightarrow> real \<Rightarrow> error + real" where
  "py_truediv a b = (if b = 0 then Inl ZeroDivisionError else Inr (a / b))"

text \<open>
  The \<^verbatim>\<open>for i, (d, w) in enumerate(sorted_weights)\<close> loop of \<^verbatim>\<open>_calculate_adg\<close>. \<open>prev\<close>
  is \<^verbatim>\<open>sorted_weights[i - 1]\<close>, absent when \<^verbatim>\<open>i = 0\<close>. The first entry dated
  \<^verbatim>\<open>current_date\<close> ends the loop, by \<^verbatim>\<open>return\<close> or by \<^verbatim>\<open>break\<close>.
\<close>

fun adg_scan :: "date \<Rightarrow> real \<Rightarrow> (date \<times> real) option \<Rightarrow> (date \<times> real) list
    \<Rightarrow> error + real option" where
  "adg_scan current_date current_weight prev [] = Inr None"
| "adg_scan current_date current_weight prev ((d, w) # rest) =
     (if d = current_date then
        (case prev of
           None \<Rightarrow> Inr None
         | Some (prev_date, prev_weight) \<Rightarrow>
             (let days = current_date - prev_date in
              if days > 0 then
                (case py_truediv (current_weight - prev_weight) (real_of_int days) of
                   Inl e \<Rightarrow> Inl e
                 | Inr q \<Rightarrow> Inr (Some q))
              else Inr None))
      else adg_scan current_date current_weight (Some (d, w)) rest)"

definition calculate_adg :: "'k \<Rightarrow> date \<Rightarrow> real \<Rightarrow> ('k \<rightharpoonup> (date \<times> real) list)
    \<Rightarrow> error + real option" where
  "calculate_adg animal_id current_date current_weight animal_weights =
     (let weights = (case animal_weights animal_id of None \<Rightarrow> [] | Some ws \<Rightarrow> ws) in
      if length weights < 2 then Inr None
      else adg_scan current_date current_weight None (sort_key fst weights))"

text \<open>
  One row of the weights table as \<^verbatim>\<open>_load_weights\<close> fills it, before the cells are
  formatted as text: the date, the animal, the weight, the condition score (a missing
  or zero score shows as a dash), the average daily gain (\<open>None\<close> shows as a dash)
  and the first 30 characters of the notes.
\<close>

record weights_table_row =
  wt_event_date :: date
  wt_animal_id :: "int option"
  wt_weight_kg :: real
  wt_condition_score :: "real option"
  wt_adg :: "real option"
  wt_notes :: string

type_synonym animal_weights = "int option \<rightharpoonup> (date \<times> real) list"

text \<open>The body of the \<^verbatim>\<open>for event in weigh_events\<close> loop; \<open>None\<close> is \<^verbatim>\<open>continue\<close>.\<close>

definition load_weights_step ::
    "db \<Rightarrow> int option \<Rightarrow> int option Event \<Rightarrow> animal_weights \<times> weights_table_row list
     \<Rightarrow> error + animal_weights \<times> weights_table_row list" where
  "load_weights_step db mob_filter event st =
     (case st of (animal_weights, table) \<Rightarrow>
        if \<not> truthy (ev_animal_id event) then Inr st
        else
          (case ev_animal_id event of
             None \<Rightarrow> Inr st
           | Some animal_id \<Rightarrow>
               (case get_animal db animal_id of
                  None \<Rightarrow> Inr st
                | Some animal \<Rightarrow>
                    if truthy mob_filter \<and> an_mob_id animal \<noteq> mob_filter then Inr st
                    else
                      (case (case ev_id event of
                               None \<Rightarrow> None
                             | Some event_id \<Rightarrow> get_weigh_details db event_id) of
                         None \<Rightarrow> Inr st
                       | Some weigh \<Rightarrow>
                           (let earlier = (case animal_weights (an_id animal) of
                                             None \<Rightarrow> []
                                           | Some ws \<Rightarrow> ws);
                                animal_weights1 =
                                  animal_weights(an_id animal \<mapsto>
                                    earlier @ [(ev_event_date event, wg_weight_kg weigh)])
                            in case calculate_adg (an_id animal) (ev_event_date event)
                                      (wg_weight_kg weigh) animal_weights1 of
                                 Inl e \<Rightarrow> Inl e
                               | Inr adg \<Rightarrow>
                                   Inr (animal_weights1,
                                        table @
                                        [\<lparr>wt_event_date = ev_event_date event,
                                          wt_animal_id = an_id animal,
                                          wt_weight_kg = wg_weight_kg weigh,
                                          wt_condition_score =
                                            (case wg_condition_score weigh of
                                               None \<Rightarrow> None
                                             | Some c \<Rightarrow> if c = 0 then None else Some c),
                                          wt_adg = adg,
                                          wt_notes = take 30 (ev_notes event)\<rparr>]))))))"

fun load_weights_loop ::
    "db \<Rightarrow> int option \<Rightarrow> int option Event list \<Rightarrow> animal_weights \<times> weights_table_row list
     \<Rightarrow> error + animal_weights \<times> weights_table_row list" where
  "load_weights_loop db mob_filter [] st = Inr st"
| "load_weights_loop db mob_filter (event # rest) st =
     (case load_weights_step db mob_filter event st of
        Inl e \<Rightarrow> Inl e
      | Inr st1 \<Rightarrow> load_weights_loop db mob_filter rest st1)"

text \<open>
  \<^verbatim>\<open>_load_weights\<close>: \<open>mob_filter\<close> is \<^verbatim>\<open>self.mob_filter.currentData()\<close>, \<open>from_date\<close> and
  \<open>to_date\<close> the two date pickers. The result is the table.
\<close>

definition load_weights ::
    "db \<Rightarrow> int option \<Rightarrow> date \<Rightarrow> date \<Rightarrow> error + weights_table_row list" where
  "load_weights db mob_filter from_date to_date =
     (let events = get_recent_events db 500;
          weigh_events =
            filter (\<lambda>e. ev_event_type e = WEIGH
                         \<and> from_date \<le> ev_event_date e \<and> ev_event_date e \<le> to_date) events
      in case load_weights_loop db mob_filter weigh_events (Map.empty, []) of
           Inl e \<Rightarrow> Inl e
         | Inr (animal_weights, table) \<Rightarrow> Inr table)"

subsection \<open>Recording a treatment (ui/dialogs/quick\_actions.py)\<close>

text \<open>
  The state of the widgets of \<^verbatim>\<open>QuickTreatmentDialog\<close> when Save is pressed; the
  texts are the stripped ones.
\<close>

record treatment_form =
  tf_product_id :: "int option"
  tf_event_date :: date
  tf_dose :: string
  tf_route :: TreatmentRoute
  tf_batch_number :: string
  tf_administered_by :: string
  tf_notes :: string

definition whp_end :: "date \<Rightarrow> int \<Rightarrow> error + date option" where
  "whp_end event_date days =
     (if days > 0 then
        (case date_add event_date days of Inl e \<Rightarrow> Inl e | Inr d \<Rightarrow> Inr (Some d))
      else Inr None)"

definition whp_ends ::
    "date \<Rightarrow> int option Product option \<Rightarrow> error + date option \<times> date option \<times> date option" where
  "whp_ends event_date product =
     (case product of
        None \<Rightarrow> Inr (None, None, None)
      | Some p \<Rightarrow>
          (case whp_end event_date (pr_meat_whp_days p) of
             Inl e \<Rightarrow> Inl e
           | Inr meat_whp_end \<Rightarrow>
               (case whp_end event_date (pr_milk_whp_days p) of
                  Inl e \<Rightarrow> Inl e
                | Inr milk_whp_end \<Rightarrow>
                    (case whp_end event_date (pr_esi_days p) of
                       Inl e \<Rightarrow> Inl e
                     | Inr esi_end \<Rightarrow> Inr (meat_whp_end, milk_whp_end, esi_end)))))"

text \<open>
  The \<^verbatim>\<open>for animal_id in self.animal_ids\<close> loop. \<open>clock k\<close> is what \<^verbatim>\<open>datetime.now()\<close>
  returns at its \<open>k\<close>-th call; an exception leaves the loop with the earlier animals saved.
\<close>

fun record_treatments ::
    "(nat \<Rightarrow> datetime) \<Rightarrow> nat \<Rightarrow> treatment_form \<Rightarrow> date option \<times> date option \<times> date option
     \<Rightarrow> int list \<Rightarrow> db \<Rightarrow> (error + unit) \<times> db" where
  "record_treatments clock k form ends [] db = (Inr (), db)"
| "record_treatments clock k form ends (animal_id # rest) db =
     (case ends of (meat_whp_end, milk_whp_end, esi_end) \<Rightarrow>
        (let event = \<lparr>ev_id = None, ev_event_type = NOTE, ev_event_date = tf_event_date form,
                      ev_animal_id = Some animal_id, ev_mob_id = None,
                      ev_notes = tf_notes form, ev_recorded_by = tf_administered_by form,
                      ev_created_at = None\<rparr>;
             treatment = \<lparr>tr_id = None, tr_event_id = None,
                          tr_product_id = tf_product_id form,
                          tr_batch_number = tf_batch_number form, tr_dose = tf_dose form,
                          tr_route = tf_route form,
                          tr_administered_by = tf_administered_by form,
                          tr_meat_whp_end = meat_whp_end, tr_milk_whp_end = milk_whp_end,
                          tr_esi_end = esi_end\<rparr>
         in case save_treatment_event (clock k) event treatment db of
              (Inl e, db1) \<Rightarrow> (Inl e, db1)
            | (Inr saved, db1) \<Rightarrow> record_treatments clock (Suc k) form ends rest db1))"

text \<open>
  \<^verbatim>\<open>QuickTreatmentDialog._on_accept\<close>. The outcome \<open>Inr False\<close> is the validation
  warning (the dialog stays open), \<open>Inr True\<close> is \<^verbatim>\<open>self.accept()\<close>.
\<close>

definition quick_treatment_on_accept ::
    "(nat \<Rightarrow> datetime) \<Rightarrow> treatment_form \<Rightarrow> int list \<Rightarrow> db \<Rightarrow> (error + bool) \<times> db" where
  "quick_treatment_on_accept clock form animal_ids db =
     (if \<not> truthy (tf_product_id form) then (Inr False, db)
      else
        (case tf_product_id form of
           None \<Rightarrow> (Inr False, db)
         | Some product_id \<Rightarrow>
             (case whp_ends (tf_event_date form) (get_product db product_id) of
                Inl e \<Rightarrow> (Inl e, db)
              | Inr ends \<Rightarrow>
                  (case record_treatments clock 0 form ends animal_ids db of
                     (Inl e, db1) \<Rightarrow> (Inl e, db1)
                   | (Inr u, db1) \<Rightarrow> (Inr True, db1)))))"

subsection \<open>Deleting a mob (ui/views/mobs.py)\<close>

text \<open>
  The \<^verbatim>\<open>for animal in self.db.get_animals_by_mob(mob_id)\<close> loop of \<^verbatim>\<open>_on_delete_mob\<close>:
  the list is read once, before the loop.
\<close>

fun unassign_animals ::
    "(nat \<Rightarrow> datetime) \<Rightarrow> nat \<Rightarrow> int option Animal list \<Rightarrow> db \<Rightarrow> (error + unit) \<times> db" where
  "unassign_animals clock k [] db = (Inr (), db)"
| "unassign_animals clock k (animal # rest) db =
     (case save_animal (clock k) (animal\<lparr>an_mob_id := None\<rparr>) db of
        (Inl e, db1) \<Rightarrow> (Inl e, db1)
      | (Inr saved, db1) \<Rightarrow> unassign_animals clock (Suc k) rest db1)"

text \<open>
  \<^verbatim>\<open>MobsView._on_delete_mob\<close>. \<open>selected\<close> is \<^verbatim>\<open>_get_selected_mob_id()\<close>, \<open>reply_yes\<close>
  the answer to the confirmation box. Building the message reads \<^verbatim>\<open>mob.name\<close>, which
  raises \<^verbatim>\<open>AttributeError\<close> when the mob is gone.
\<close>

definition on_delete_mob ::
    "(nat \<Rightarrow> datetime) \<Rightarrow> int option \<Rightarrow> bool \<Rightarrow> db \<Rightarrow> (error + unit) \<times> db" where
  "on_delete_mob clock selected reply_yes db =
     (if \<not> truthy selected then (Inr (), db)
      else
        (case selected of
           None \<Rightarrow> (Inr (), db)
         | Some i \<Rightarrow>
             (case get_mob db i of
                None \<Rightarrow> (Inl AttributeError, db)
              | Some mob \<Rightarrow>
                  if reply_yes then
                    (case unassign_animals clock 0 (get_animals_by_mob db i) db of
                       (Inl e, db1) \<Rightarrow> (Inl e, db1)
                     | (Inr u, db1) \<Rightarrow> delete_mob i db1)
                  else (Inr (), db))))"

subsection \<open>The store as a transition system\<close>

text \<open>
  The mutating operations of \<^verbatim>\<open>Database\<close>, as commands. (\<^verbatim>\<open>restore\<close> replaces the
  store file as a whole and is not one of them.)
\<close>

datatype command =
    Save_paddock datetime "int option Paddock"
  | Delete_paddock int
  | Save_mob datetime "int option Mob"
  | Delete_mob int
  | Save_animal datetime "int option Animal"
  | Delete_animal int
  | Save_product datetime "int option Product"
  | Delete_product int
  | Save_event datetime "int option Event"
  | Save_movement_event datetime "int option Event" "(int option, int option) MovementEvent"
  | Save_treatment_event datetime "int option Event" "(int option, int option) TreatmentEvent"
  | Save_weigh_event datetime "int option Event" "(int option, int option) WeighEvent"
  | Save_task datetime "int option Task"
  | Complete_task datetime int
  | Delete_task int
  | Save_property_settings datetime "int option PropertySettings"

fun exec :: "command \<Rightarrow> db \<Rightarrow> db" where
  "exec (Save_paddock now x) db = snd (save_paddock now x db)"
| "exec (Delete_paddock i) db = snd (delete_paddock i db)"
| "exec (Save_mob now x) db = snd (save_mob now x db)"
| "exec (Delete_mob i) db = snd (delete_mob i db)"
| "exec (Save_animal now x) db = snd (save_animal now x db)"
| "exec (Delete_animal i) db = snd (delete_animal i db)"
| "exec (Save_product now x) db = snd (save_product now x db)"
| "exec (Delete_product i) db = snd (delete_product i db)"
| "exec (Save_event now x) db = snd (save_event now x db)"
| "exec (Save_movement_event now x d) db = snd (save_movement_event now x d db)"
| "exec (Save_treatment_event now x d) db = snd (save_treatment_event now x d db)"
| "exec (Save_weigh_event now x d) db = snd (save_weigh_event now x d db)"
| "exec (Save_task now x) db = snd (save_task now x db)"
| "exec (Complete_task now i) db = snd (complete_task now i db)"
| "exec (Delete_task i) db = snd (delete_task i db)"
| "exec (Save_property_settings now x) db = snd (save_property_settings now x db)"

fun run :: "command list \<Rightarrow> db \<Rightarrow> db" where
  "run [] db = db"
| "run (c # cs) db = run cs (exec c db)"

fun is_treatment_save :: "command \<Rightarrow> bool" where
  "is_treatment_save (Save_treatment_event now x d) = True"
| "is_treatment_save c = False"

subsection \<open>Scenarios\<close>

definition new_animal :: "string \<Rightarrow> int option Animal" where
  "new_animal tag =
     \<lparr>an_id = None, an_eid = [], an_visual_tag = tag, an_species = CATTLE, an_breed = [],
      an_sex = FEMALE, an_date_of_birth = None, an_status = ALIVE, an_mob_id = None,
      an_dam_id = None, an_sire_id = None, an_notes = [], an_created_at = None,
      an_updated_at = None\<rparr>"

definition new_event :: "date \<Rightarrow> int \<Rightarrow> int option Event" where
  "new_event d animal_id =
     \<lparr>ev_id = None, ev_event_type = NOTE, ev_event_date = d, ev_animal_id = Some animal_id,
      ev_mob_id = None, ev_notes = [], ev_recorded_by = [], ev_created_at = None\<rparr>"

definition new_weigh :: "real \<Rightarrow> (int option, int option) WeighEvent" where
  "new_weigh w =
     \<lparr>wg_id = None, wg_event_id = None, wg_weight_kg = w, wg_condition_score = None\<rparr>"

definition new_product :: "string \<Rightarrow> int \<Rightarrow> int \<Rightarrow> int \<Rightarrow> int option Product" where
  "new_product name meat milk esi =
     \<lparr>pr_id = None, pr_name = name, pr_active_ingredient = [], pr_category = [],
      pr_meat_whp_days = meat, pr_milk_whp_days = milk, pr_esi_days = esi,
      pr_default_dose = [], pr_default_route = INJECTION_SC, pr_notes = [],
      pr_created_at = None, pr_updated_at = None\<rparr>"

text \<open>
  One animal, weighed 100 kg on day 738000 and 110 kg ten days later, each weighing
  recorded through \<^verbatim>\<open>save_weigh_event\<close>.
\<close>

definition two_weighings_db :: db where
  "two_weighings_db =
     run [Save_animal 1 (new_animal ''A1''),
          Save_weigh_event 2 (new_event 738000 1) (new_weigh 100),
          Save_weigh_event 3 (new_event 738010 1) (new_weigh 110)] empty_db"

definition one_weighing_db :: db where
  "one_weighing_db =
     run [Save_animal 1 (new_animal ''A1''),
          Save_weigh_event 2 (new_event 738000 1) (new_weigh 100)] empty_db"

definition new_treatment_form :: "int \<Rightarrow> date \<Rightarrow> treatment_form" where
  "new_treatment_form product_id d =
     \<lparr>tf_product_id = Some product_id, tf_event_date = d, tf_dose = ''1ml/10kg'',
      tf_route = INJECTION_SC, tf_batch_number = [], tf_administered_by = [],
      tf_notes = []\<rparr>"

text \<open>
  The end-to-end scenario of the specification: a product with a meat withholding
  period of 28 days, and animal 1 treated with it on 2024-01-10 (ordinal 738895) through
  the treatment dialog. 2024-02-07 is ordinal 738923.
\<close>

definition untreated_db :: db where
  "untreated_db =
     run [Save_animal 1 (new_animal ''A''),
          Save_product 2 (new_product ''Drench'' 28 0 0)] empty_db"

definition treated_db :: db where
  "treated_db =
     snd (quick_treatment_on_accept (\<lambda>k. 10 + int k) (new_treatment_form 1 738895) [1]
            untreated_db)"

subsection \<open>Substring search as the specification words it\<close>





subsection \<open>Pending tasks as the specification words them\<close>

text \<open>
  ``A due date within the window of \<^verbatim>\<open>days_ahead\<close> days from today'', read as stated:
  from today up to \<^verbatim>\<open>days_ahead\<close> days later.
\<close>

definition in_window :: "date \<Rightarrow> int \<Rightarrow> date \<Rightarrow> bool" where
  "in_window today days_ahead d = (today \<le> d \<and> d \<le> today + days_ahead)"

definition pending_tasks_spec :: "date \<Rightarrow> db \<Rightarrow> int \<Rightarrow> int Task list" where
  "pending_tasks_spec today db days_ahead =
     filter (\<lambda>r. \<not> tk_completed r
                  \<and> (case tk_due_date r of None \<Rightarrow> True | Some d \<Rightarrow> in_window today days_ahead d))
       (tasks db)"

text \<open>``Ordered by due date, nulls last'' as a relation on two due dates.\<close>

fun due_le :: "date option \<Rightarrow> date option \<Rightarrow> bool" where
  "due_le (Some a) (Some b) = (a \<le> b)"
| "due_le (Some a) None = True"
| "due_le None None = True"
| "due_le None (Some b) = False"

definition new_task :: "string \<Rightarrow> date option \<Rightarrow> bool \<Rightarrow> int option Task" where
  "new_task title due completed =
     \<lparr>tk_id = None, tk_title = title, tk_description = [], tk_due_date = due,
      tk_source_event_id = None, tk_animal_id = None, tk_mob_id = None,
      tk_completed = completed, tk_completed_at = None, tk_created_at = None\<rparr>"

text \<open>
  Five tasks around 2024-01-10 (ordinal 738895): one overdue since the day before,
  one without a due date, one due in three days, one due in thirty days, and a completed
  one due the next day.
\<close>

definition tasks_db :: db where
  "tasks_db =
     run [Save_task 1 (new_task ''overdue'' (Some 738894) False),
          Save_task 2 (new_task ''some day'' None False),
          Save_task 3 (new_task ''soon'' (Some 738898) False),
          Save_task 4 (new_task ''later'' (Some 738925) False),
          Save_task 5 (new_task ''done'' (Some 738896) True)] empty_db"

text \<open>
  The same scenario with a product whose export slaughter interval (42 days) is longer
  than its meat withholding period (28 days).
\<close>

definition esi_untreated_db :: db where
  "esi_untreated_db =
     run [Save_animal 1 (new_animal ''A''),
          Save_product 2 (new_product ''Pour-on'' 28 0 42)] empty_db"

definition esi_treated_db :: db where
  "esi_treated_db =
     snd (quick_treatment_on_accept (\<lambda>k. 10 + int k) (new_treatment_form 1 738895) [1]
            esi_untreated_db)"

subsection \<open>The family of save operations\<close>








definition new_mob :: "string \<Rightarrow> int option Mob" where
  "new_mob name =
     \<lparr>mob_id = None, mob_name = name, mob_species = CATTLE, mob_description = [],
      mob_current_paddock_id = None, mob_created_at = None, mob_updated_at = None\<rparr>"

definition mob_db :: db where
  "mob_db =
     run [Save_mob 1 (new_mob ''Weaners''),
          Save_animal 2 ((new_animal ''W2'')\<lparr>an_mob_id := Some 1\<rparr>),
          Save_animal 3 (new_animal ''K7''),
          Save_animal 4 ((new_animal ''W1'')\<lparr>an_mob_id := Some 1, an_dam_id := Some 2\<rparr>)]
       empty_db"



subsection \<open>Typed events and their detail rows\<close>

text \<open>The event has a detail row of the given subtype.\<close>

fun has_detail :: "db \<Rightarrow> EventType \<Rightarrow> int \<Rightarrow> bool" where
  "has_detail db MOVEMENT i = (i \<in> set (map mv_event_id (movement_events db)))"
| "has_detail db TREATMENT i = (i \<in> set (map tr_event_id (treatment_events db)))"
| "has_detail db WEIGH i = (i \<in> set (map wg_event_id (weigh_events db)))"
| "has_detail db ty i = False"

text \<open>
  ``Recorded through the typed save operation'': the command is a typed save that
  returned, for the event whose identity it returned. \<open>typed_save\<close> lists the subtype and
  the event identity (no entry for any other command or when the save raised).
\<close>

fun typed_save :: "command \<Rightarrow> db \<Rightarrow> (EventType \<times> int) list" where
  "typed_save (Save_movement_event now x d) db =
     (case fst (save_movement_event now x d db) of
        Inl e \<Rightarrow> []
      | Inr (x', d') \<Rightarrow> (case ev_id x' of None \<Rightarrow> [] | Some i \<Rightarrow> [(MOVEMENT, i)]))"
| "typed_save (Save_treatment_event now x d) db =
     (case fst (save_treatment_event now x d db) of
        Inl e \<Rightarrow> []
      | Inr (x', d') \<Rightarrow> (case ev_id x' of None \<Rightarrow> [] | Some i \<Rightarrow> [(TREATMENT, i)]))"
| "typed_save (Save_weigh_event now x d) db =
     (case fst (save_weigh_event now x d db) of
        Inl e \<Rightarrow> []
      | Inr (x', d') \<Rightarrow> (case ev_id x' of None \<Rightarrow> [] | Some i \<Rightarrow> [(WEIGH, i)]))"
| "typed_save c db = []"

text \<open>The same, restricted to typed saves whose detail record came without an identity.\<close>

fun typed_insert :: "command \<Rightarrow> db \<Rightarrow> (EventType \<times> int) list" where
  "typed_insert (Save_movement_event now x d) db =
     (if mv_id d = None then typed_save (Save_movement_event now x d) db else [])"
| "typed_insert (Save_treatment_event now x d) db =
     (if tr_id d = None then typed_save (Save_treatment_event now x d) db else [])"
| "typed_insert (Save_weigh_event now x d) db =
     (if wg_id d = None then typed_save (Save_weigh_event now x d) db else [])"
| "typed_insert c db = []"

fun typed_saves :: "command list \<Rightarrow> db \<Rightarrow> (EventType \<times> int) list" where
  "typed_saves [] db = []"
| "typed_saves (c # cs) db = typed_save c db @ typed_saves cs (exec c db)"

fun typed_inserts :: "command list \<Rightarrow> db \<Rightarrow> (EventType \<times> int) list" where
  "typed_inserts [] db = []"
| "typed_inserts (c # cs) db = typed_insert c db @ typed_inserts cs (exec c db)"

text \<open>
  The invariant of the claim, for a store and the list of typed events recorded so far:
  an event row of type movement, treatment or weigh has its detail row iff it is in that
  list.
\<close>

definition detail_iff_recorded :: "db \<Rightarrow> (EventType \<times> int) list \<Rightarrow> bool" where
  "detail_iff_recorded db recorded =
     (\<forall>e \<in> set (events db).
        ev_event_type e \<in> {MOVEMENT, TREATMENT, WEIGH} \<longrightarrow>
          (has_detail db (ev_event_type e) (ev_id e)
             \<longleftrightarrow> (ev_event_type e, ev_id e) \<in> set recorded))"

definition new_treatment :: "int option \<Rightarrow> (int option, int option) TreatmentEvent" where
  "new_treatment detail_id =
     \<lparr>tr_id = detail_id, tr_event_id = None, tr_product_id = None, tr_batch_number = [],
      tr_dose = [], tr_route = INJECTION_SC, tr_administered_by = [],
      tr_meat_whp_end = None, tr_milk_whp_end = None, tr_esi_end = None\<rparr>"

text \<open>
  A treatment saved for a new event with a detail record that carries identity 7, which
  no row has.
\<close>

definition stale_detail_commands :: "command list" where
  "stale_detail_commands =
     [Save_animal 1 (new_animal ''A''),
      Save_treatment_event 2 (new_event 738895 1) (new_treatment (Some 7))]"

text \<open>
  A treatment and a weighing recorded through the typed saves, and an event of type
  treatment saved through \<^verbatim>\<open>save_event\<close> alone.
\<close>

definition typed_commands :: "command list" where
  "typed_commands =
     [Save_animal 1 (new_animal ''A''),
      Save_treatment_event 2 (new_event 738895 1) (new_treatment None),
      Save_weigh_event 3 (new_event 738896 1) (new_weigh 100),
      Save_event 4 ((new_event 738897 1)\<lparr>ev_event_type := TREATMENT\<rparr>)]"

fun is_typed_save :: "command \<Rightarrow> bool" where
  "is_typed_save (Save_movement_event now x d) = True"
| "is_typed_save (Save_treatment_event now x d) = True"
| "is_typed_save (Save_weigh_event now x d) = True"
| "is_typed_save c = False"

definition new_movement :: "(int option, int option) MovementEvent" where
  "new_movement =
     \<lparr>mv_id = None, mv_event_id = None, mv_from_paddock_id = None, mv_to_paddock_id = None,
      mv_reason = ''rotation'', mv_head_count = 1\<rparr>"

definition one_animal_db :: db where
  "one_animal_db = run [Save_animal 1 (new_animal ''A'')] empty_db"

subsection \<open>Constraints the store keeps\<close>

text \<open>
  The declared constraints that the properties below rely on: \<^verbatim>\<open>animals.id\<close> is a
  primary key, \<^verbatim>\<open>dam_id\<close> and \<^verbatim>\<open>sire_id\<close> reference stored animals, and every
  \<^verbatim>\<open>treatment_events.event_id\<close> references a stored event.
\<close>

definition store_constraints :: "db \<Rightarrow> bool" where
  "store_constraints db =
     (distinct (map an_id (animals db))
      \<and> (\<forall>r \<in> set (animals db). fk_ok (an_dam_id r) (map an_id (animals db))
                                  \<and> fk_ok (an_sire_id r) (map an_id (animals db)))
      \<and> set (map tr_event_id (treatment_events db)) \<subseteq> set (map ev_id (events db)))"

section \<open>Properties\<close>

subsection \<open>Average daily gain\<close>

lemma adg_scan_no_error: "\<exists>r. adg_scan cd cw prev ws = Inr r"
proof (induction ws arbitrary: prev)
  case Nil
  show ?case by simp
next
  case (Cons p ws)
  obtain d w where p: "p = (d, w)" by (cases p)
  show ?case
  proof (cases "d = cd")
    case False
    with Cons.IH [of "Some (d, w)"] p show ?thesis by simp
  next
    case True
    show ?thesis
    proof (cases prev)
      case None
      with True p show ?thesis by simp
    next
      case (Some q)
      obtain pd pw where q: "q = (pd, pw)" by (cases q)
      show ?thesis
        using True p Some q by (simp add: py_truediv_def Let_def)
    qed
  qed
qed

lemma adg_scan_value:
  "adg_scan cd cw prev ws = Inr (Some v) \<Longrightarrow>
     \<exists>pd pw. (prev = Some (pd, pw) \<or> (pd, pw) \<in> set ws) \<and> pd < cd
        \<and> v = (cw - pw) / real_of_int (cd - pd)"
proof (induction ws arbitrary: prev)
  case Nil
  then show ?case by simp
next
  case (Cons p ws)
  obtain d w where p: "p = (d, w)" by (cases p)
  show ?case
  proof (cases "d = cd")
    case False
    with Cons.prems p have "adg_scan cd cw (Some (d, w)) ws = Inr (Some v)"
      by simp
    from Cons.IH [OF this] p show ?thesis
      by auto
  next
    case True
    with Cons.prems p obtain pd pw where
      "prev = Some (pd, pw)" "0 < cd - pd" "v = (cw - pw) / real_of_int (cd - pd)"
      by (cases prev) (auto simp: py_truediv_def Let_def split: if_splits)
    then show ?thesis
      by auto
  qed
qed

text \<open>
  C3. \<^verbatim>\<open>_calculate_adg\<close> never divides by zero: on every input it returns normally (a
  value or \<^verbatim>\<open>None\<close>); for two weighings of one animal on the same date it returns
  \<^verbatim>\<open>None\<close> for either of them; and every value it returns is the weight difference to
  an entry of a strictly earlier date, divided by the positive number of days between.
\<close>

theorem C3_adg_zero_interval_skipped:
  "(\<exists>r. calculate_adg a cd cw aw = Inr r)
   \<and> calculate_adg a d w1 (aw(a \<mapsto> [(d, w1), (d, w2)])) = Inr None
   \<and> calculate_adg a d w2 (aw(a \<mapsto> [(d, w1), (d, w2)])) = Inr None
   \<and> (calculate_adg a cd cw aw = Inr (Some v) \<longrightarrow>
        (\<exists>ws pd pw. aw a = Some ws \<and> (pd, pw) \<in> set ws \<and> pd < cd
           \<and> v = (cw - pw) / real_of_int (cd - pd)))"
proof (intro conjI impI)
  show "\<exists>r. calculate_adg a cd cw aw = Inr r"
    using adg_scan_no_error by (simp add: calculate_adg_def Let_def)
  show "calculate_adg a d w1 (aw(a \<mapsto> [(d, w1), (d, w2)])) = Inr None"
    by (simp add: calculate_adg_def)
  show "calculate_adg a d w2 (aw(a \<mapsto> [(d, w1), (d, w2)])) = Inr None"
    by (simp add: calculate_adg_def)
  assume v: "calculate_adg a cd cw aw = Inr (Some v)"
  then obtain ws where ws: "aw a = Some ws"
    by (cases "aw a") (simp_all add: calculate_adg_def)
  with v have "adg_scan cd cw None (sort_key fst ws) = Inr (Some v)"
    by (simp add: calculate_adg_def split: if_splits)
  from adg_scan_value [OF this] ws
  show "\<exists>ws pd pw. aw a = Some ws \<and> (pd, pw) \<in> set ws \<and> pd < cd
           \<and> v = (cw - pw) / real_of_int (cd - pd)"
    by auto
qed

theorem C3_adg_zero_interval_skipped_witness:
  "calculate_adg (1::nat) 738010 110 [1 \<mapsto> [(738010, 110), (738000, 100)]] = Inr (Some 1)
   \<and> (\<exists>ws pd pw. [1 \<mapsto> [(738010, 110), (738000, 100)]] (1::nat) = Some ws
          \<and> (pd, pw) \<in> set ws \<and> pd < 738010
          \<and> (1::real) = (110 - pw) / real_of_int (738010 - pd))"
proof -
  have v: "calculate_adg (1::nat) 738010 110 [1 \<mapsto> [(738010, 110), (738000, 100)]]
      = Inr (Some 1)"
    by code_simp
  with C3_adg_zero_interval_skipped [of 1 738010 110 "[1 \<mapsto> [(738010, 110), (738000, 100)]]" _ _ _ 1]
  show ?thesis
    by blast
qed

text \<open>
  C2 (the code departs from the claim). In \<^verbatim>\<open>_load_weights\<close> the events arrive newest
  first, and each row's gain is computed from the weights collected so far. For the
  animal weighed 100 kg on day 0 and 110 kg on day 10 the table therefore shows no gain
  on either row, although \<^verbatim>\<open>_calculate_adg\<close> returns 1.0 for the second weighing once
  both weights are known. A single weighing yields no value.
\<close>

theorem C2_second_weighing_shows_no_adg:
  "load_weights two_weighings_db None 737000 739000 =
     Inr [\<lparr>wt_event_date = 738010, wt_animal_id = Some 1, wt_weight_kg = 110,
            wt_condition_score = None, wt_adg = None, wt_notes = []\<rparr>,
          \<lparr>wt_event_date = 738000, wt_animal_id = Some 1, wt_weight_kg = 100,
            wt_condition_score = None, wt_adg = None, wt_notes = []\<rparr>]
   \<and> calculate_adg (Some (1::int)) 738010 110
         [Some 1 \<mapsto> [(738010, 110), (738000, 100)]] = Inr (Some 1)
   \<and> load_weights one_weighing_db None 737000 739000 =
       Inr [\<lparr>wt_event_date = 738000, wt_animal_id = Some 1, wt_weight_kg = 100,
              wt_condition_score = None, wt_adg = None, wt_notes = []\<rparr>]"
  by code_simp

subsection \<open>Frame of the operations on the detail tables\<close>

lemma save_event_details:
  "movement_events (snd (save_event now x db)) = movement_events db"
  "treatment_events (snd (save_event now x db)) = treatment_events db"
  "weigh_events (snd (save_event now x db)) = weigh_events db"
  by (simp_all add: save_event_def Let_def split: option.split)

lemma save_movement_event_others:
  "treatment_events (snd (save_movement_event now x d db)) = treatment_events db"
  "weigh_events (snd (save_movement_event now x d db)) = weigh_events db"
proof -
  obtain r db1 where eq: "save_event now (x\<lparr>ev_event_type := MOVEMENT\<rparr>) db = (r, db1)"
    by (cases "save_event now (x\<lparr>ev_event_type := MOVEMENT\<rparr>) db")
  have "treatment_events db1 = treatment_events db" "weigh_events db1 = weigh_events db"
    using save_event_details(2,3) [of now "x\<lparr>ev_event_type := MOVEMENT\<rparr>" db] eq by simp_all
  then show
    "treatment_events (snd (save_movement_event now x d db)) = treatment_events db"
    "weigh_events (snd (save_movement_event now x d db)) = weigh_events db"
    by (simp_all add: save_movement_event_def eq Let_def split: sum.split option.split)
qed

lemma save_treatment_event_others:
  "movement_events (snd (save_treatment_event now x d db)) = movement_events db"
  "weigh_events (snd (save_treatment_event now x d db)) = weigh_events db"
proof -
  obtain r db1 where eq: "save_event now (x\<lparr>ev_event_type := TREATMENT\<rparr>) db = (r, db1)"
    by (cases "save_event now (x\<lparr>ev_event_type := TREATMENT\<rparr>) db")
  have "movement_events db1 = movement_events db" "weigh_events db1 = weigh_events db"
    using save_event_details(1,3) [of now "x\<lparr>ev_event_type := TREATMENT\<rparr>" db] eq by simp_all
  then show
    "movement_events (snd (save_treatment_event now x d db)) = movement_events db"
    "weigh_events (snd (save_treatment_event now x d db)) = weigh_events db"
    by (simp_all add: save_treatment_event_def eq Let_def split: sum.split option.split)
qed

lemma save_weigh_event_others:
  "movement_events (snd (save_weigh_event now x d db)) = movement_events db"
  "treatment_events (snd (save_weigh_event now x d db)) = treatment_events db"
proof -
  obtain r db1 where eq: "save_event now (x\<lparr>ev_event_type := WEIGH\<rparr>) db = (r, db1)"
    by (cases "save_event now (x\<lparr>ev_event_type := WEIGH\<rparr>) db")
  have "movement_events db1 = movement_events db" "treatment_events db1 = treatment_events db"
    using save_event_details(1,2) [of now "x\<lparr>ev_event_type := WEIGH\<rparr>" db] eq by simp_all
  then show
    "movement_events (snd (save_weigh_event now x d db)) = movement_events db"
    "treatment_events (snd (save_weigh_event now x d db)) = treatment_events db"
    by (simp_all add: save_weigh_event_def eq Let_def split: sum.split option.split)
qed

lemma exec_keeps_treatment_events:
  "\<not> is_treatment_save c \<Longrightarrow> treatment_events (exec c db) = treatment_events db"
  by (cases c)
     (simp_all add: save_paddock_def delete_paddock_def save_mob_def delete_mob_def
        save_animal_def delete_animal_def save_product_def delete_product_def
        save_event_details save_movement_event_others save_weigh_event_others
        save_task_def complete_task_def delete_task_def save_property_settings_def Let_def
        split: option.split)

subsection \<open>Stored withholding dates and later product edits\<close>

text \<open>
  C4. \<^verbatim>\<open>save_product\<close> leaves the \<^verbatim>\<open>treatment_events\<close> table as it is, so every stored
  \<^verbatim>\<open>meat_whp_end\<close>, \<^verbatim>\<open>milk_whp_end\<close> and \<^verbatim>\<open>esi_end\<close> is unchanged and
  \<^verbatim>\<open>get_treatment_details\<close> answers as before; the same holds for every operation of the
  store other than \<^verbatim>\<open>save_treatment_event\<close>.
\<close>

theorem C4_save_product_keeps_whp_dates:
  "treatment_events (snd (save_product now product db)) = treatment_events db
   \<and> get_treatment_details (snd (save_product now product db)) event_id
       = get_treatment_details db event_id
   \<and> (\<forall>c. \<not> is_treatment_save c \<longrightarrow> treatment_events (exec c db) = treatment_events db)"
  using exec_keeps_treatment_events
  by (simp add: save_product_def get_treatment_details_def Let_def split: option.split)

theorem C4_save_product_keeps_whp_dates_witness:
  "map pr_meat_whp_days (products treated_db) = [28]
   \<and> map pr_meat_whp_days
         (products (snd (save_product 20 ((new_product ''Drench'' 99 0 0)\<lparr>pr_id := Some 1\<rparr>)
            treated_db))) = [99]
   \<and> map tr_meat_whp_end
         (treatment_events
            (snd (save_product 20 ((new_product ''Drench'' 99 0 0)\<lparr>pr_id := Some 1\<rparr>)
               treated_db))) = [Some 738923]
   \<and> \<not> is_treatment_save (Delete_product 7)
   \<and> treatment_events (exec (Delete_product 7) treated_db) = treatment_events treated_db"
proof -
  have a: "map pr_meat_whp_days (products treated_db) = [28]"
    by code_simp
  have b: "map pr_meat_whp_days
         (products (snd (save_product 20 ((new_product ''Drench'' 99 0 0)\<lparr>pr_id := Some 1\<rparr>)
            treated_db))) = [99]"
    by code_simp
  have c: "map tr_meat_whp_end (treatment_events treated_db) = [Some 738923]"
    by code_simp
  note inst = C4_save_product_keeps_whp_dates
         [of 20 "(new_product ''Drench'' 99 0 0)\<lparr>pr_id := Some 1\<rparr>" treated_db 1]
  from inst have d: "\<not> is_treatment_save (Delete_product 7)
      \<longrightarrow> treatment_events (exec (Delete_product 7) treated_db) = treatment_events treated_db"
    by blast
  have e: "\<not> is_treatment_save (Delete_product 7)"
    by simp
  from inst a b c d e show ?thesis
    by (simp del: exec.simps)
qed

subsection \<open>Lookups and list queries that find nothing\<close>



subsection \<open>Searching animals\<close>









subsection \<open>Pending tasks\<close>

lemma pending_order_due_le:
  "pending_order a \<le> pending_order b \<Longrightarrow> due_le (tk_due_date a) (tk_due_date b)"
  by (cases "tk_due_date a"; cases "tk_due_date b") (auto simp: pending_order_def)

lemma sorted_pending:
  "sorted_wrt (\<lambda>a b. due_le (tk_due_date a) (tk_due_date b)) (sort_key pending_order rows)"
proof -
  have "sorted (map pending_order (sort_key pending_order rows))"
    by (rule sorted_sort_key)
  then have "sorted_wrt (\<lambda>a b. pending_order a \<le> pending_order b) (sort_key pending_order rows)"
    by (simp add: sorted_map)
  then show ?thesis
    by (rule sorted_wrt_mono_rel [rotated]) (simp add: pending_order_due_le)
qed

text \<open>
  C7 as stated fails twice. \<^verbatim>\<open>get_pending_tasks\<close> has no lower bound on the due date:
  with \<^verbatim>\<open>days_ahead = 7\<close> it returns the task that was due yesterday, which is not within
  seven days from today. And it does not return for every \<^verbatim>\<open>days_ahead\<close>: when today
  plus \<^verbatim>\<open>days_ahead\<close> is not a date, the date arithmetic raises \<^verbatim>\<open>OverflowError\<close>.
\<close>

theorem C7_overdue_task_counterexample:
  "map_sum id (map tk_id) (get_pending_tasks 738895 tasks_db 7) = Inr [Some 1, Some 3, Some 2]
   \<and> map tk_id (pending_tasks_spec 738895 tasks_db 7) = [2, 3]
   \<and> map tk_due_date (tasks tasks_db)
       = [Some 738894, None, Some 738898, Some 738925, Some 738896]
   \<and> get_pending_tasks 738895 tasks_db 3000000 = Inl OverflowError"
  by code_simp

text \<open>
  C7, amended. Whenever today plus \<^verbatim>\<open>days_ahead\<close> is a date, \<^verbatim>\<open>get_pending_tasks\<close>
  returns exactly the incomplete tasks that have no due date or a due date on or before
  that day (overdue tasks included), ordered by due date with the tasks without a due
  date last.
\<close>

theorem C7_pending_tasks_up_to_end_date:
  assumes "\<bar>n\<bar> \<le> 999999999" and "0 < today + n" and "today + n \<le> 3652059"
  shows "\<exists>rows. get_pending_tasks today db n = Inr (map row_to_task rows)
     \<and> mset rows = mset (filter (\<lambda>r. \<not> tk_completed r
                                      \<and> (tk_due_date r = None
                                         \<or> (\<exists>d. tk_due_date r = Some d \<and> d \<le> today + n)))
                           (tasks db))
     \<and> sorted_wrt (\<lambda>a b. due_le (tk_due_date a) (tk_due_date b)) rows"
proof -
  have d: "date_add today n = Inr (today + n)"
    using assms by (simp add: date_add_def)
  have w: "pending_where (today + n) = (\<lambda>r. \<not> tk_completed r
              \<and> (tk_due_date r = None \<or> (\<exists>d. tk_due_date r = Some d \<and> d \<le> today + n)))"
    by (auto simp: pending_where_def fun_eq_iff split: option.split)
  let ?rows = "sort_key pending_order (filter (pending_where (today + n)) (tasks db))"
  have "get_pending_tasks today db n = Inr (map row_to_task ?rows)"
    by (simp add: get_pending_tasks_def d)
  moreover have "mset ?rows = mset (filter (pending_where (today + n)) (tasks db))"
    by simp
  moreover have "sorted_wrt (\<lambda>a b. due_le (tk_due_date a) (tk_due_date b)) ?rows"
    by (rule sorted_pending)
  ultimately show ?thesis
    unfolding w by blast
qed

theorem C7_pending_tasks_up_to_end_date_witness:
  "\<bar>7::int\<bar> \<le> 999999999 \<and> (0::int) < 738895 + 7 \<and> (738895::int) + 7 \<le> 3652059
   \<and> (\<exists>rows. get_pending_tasks 738895 tasks_db 7 = Inr (map row_to_task rows)
         \<and> mset rows = mset (filter (\<lambda>r. \<not> tk_completed r
                                      \<and> (tk_due_date r = None
                                         \<or> (\<exists>d. tk_due_date r = Some d \<and> d \<le> 738895 + 7)))
                               (tasks tasks_db))
         \<and> sorted_wrt (\<lambda>a b. due_le (tk_due_date a) (tk_due_date b)) rows)
   \<and> map_sum id (map tk_due_date) (get_pending_tasks 738895 tasks_db 7)
       = Inr [Some 738894, Some 738898, None]"
proof -
  have h: "\<bar>7::int\<bar> \<le> 999999999" "(0::int) < 738895 + 7" "(738895::int) + 7 \<le> 3652059"
    by simp_all
  have v: "map_sum id (map tk_due_date) (get_pending_tasks 738895 tasks_db 7)
       = Inr [Some 738894, Some 738898, None]"
    by code_simp
  from C7_pending_tasks_up_to_end_date [OF h, of tasks_db] h v show ?thesis
    by blast
qed

subsection \<open>Animals within a withholding period\<close>

lemma foldr_max_ge: "i \<in> set ids \<Longrightarrow> i \<le> foldr max ids (s::int)"
  by (induction ids) auto

lemma next_rowid_greater: "i \<in> set ids \<Longrightarrow> i < next_rowid ids s"
  using foldr_max_ge [of i ids s] by (simp add: next_rowid_def)

lemma next_rowid_fresh: "next_rowid ids s \<notin> set ids"
  using next_rowid_greater [of "next_rowid ids s" ids s] by auto

lemma left_join_product_name_nonempty: "left_join_product_name db pid \<noteq> []"
  by (simp add: left_join_product_name_def split: list.split)

lemma set_whp_join:
  "set (whp_join db) =
     {(t, e, a, p). t \<in> set (treatment_events db) \<and> e \<in> set (events db)
        \<and> tr_event_id t = ev_id e \<and> a \<in> set (animals db) \<and> ev_animal_id e = Some (an_id a)
        \<and> p \<in> set (left_join_product_name db (tr_product_id t))}"
  by (auto simp: whp_join_def)

lemma on_whp_iff:
  "i \<in> set (map w_animal_id (get_animals_on_whp today db (Some x))) \<longleftrightarrow>
     (\<exists>t \<in> set (treatment_events db). \<exists>e \<in> set (events db). \<exists>a \<in> set (animals db).
        tr_event_id t = ev_id e \<and> ev_animal_id e = Some (an_id a) \<and> an_id a = i
        \<and> an_status a = ALIVE
        \<and> (on_or_after (tr_meat_whp_end t) x \<or> on_or_after (tr_milk_whp_end t) x
           \<or> on_or_after (tr_esi_end t) x))"
proof
  assume "i \<in> set (map w_animal_id (get_animals_on_whp today db (Some x)))"
  then obtain j where j: "j \<in> set (whp_join db)" "whp_where x j" "w_animal_id (whp_select j) = i"
    by (auto simp: get_animals_on_whp_def)
  obtain t e a p where "j = (t, e, a, p)" by (cases j) auto
  with j show "\<exists>t \<in> set (treatment_events db). \<exists>e \<in> set (events db). \<exists>a \<in> set (animals db).
        tr_event_id t = ev_id e \<and> ev_animal_id e = Some (an_id a) \<and> an_id a = i
        \<and> an_status a = ALIVE
        \<and> (on_or_after (tr_meat_whp_end t) x \<or> on_or_after (tr_milk_whp_end t) x
           \<or> on_or_after (tr_esi_end t) x)"
    unfolding set_whp_join by (auto simp: whp_where_def whp_select_def)
next
  assume "\<exists>t \<in> set (treatment_events db). \<exists>e \<in> set (events db). \<exists>a \<in> set (animals db).
        tr_event_id t = ev_id e \<and> ev_animal_id e = Some (an_id a) \<and> an_id a = i
        \<and> an_status a = ALIVE
        \<and> (on_or_after (tr_meat_whp_end t) x \<or> on_or_after (tr_milk_whp_end t) x
           \<or> on_or_after (tr_esi_end t) x)"
  then obtain t e a where h: "t \<in> set (treatment_events db)" "e \<in> set (events db)"
      "a \<in> set (animals db)" "tr_event_id t = ev_id e" "ev_animal_id e = Some (an_id a)"
      "an_id a = i" "an_status a = ALIVE"
      "on_or_after (tr_meat_whp_end t) x \<or> on_or_after (tr_milk_whp_end t) x
           \<or> on_or_after (tr_esi_end t) x"
    by blast
  obtain p where p: "p \<in> set (left_join_product_name db (tr_product_id t))"
    using left_join_product_name_nonempty [of db "tr_product_id t"]
    by (cases "left_join_product_name db (tr_product_id t)") auto
  from h p have "(t, e, a, p) \<in> set (whp_join db)"
    unfolding set_whp_join by simp
  moreover from h have "whp_where x (t, e, a, p)"
    by (simp add: whp_where_def)
  moreover from h have "w_animal_id (whp_select (t, e, a, p)) = i"
    by (simp add: whp_select_def)
  ultimately show "i \<in> set (map w_animal_id (get_animals_on_whp today db (Some x)))"
    by (force simp: get_animals_on_whp_def)
qed

lemma whp_end_Inr:
  "whp_end t n = Inr r \<Longrightarrow> r = (if n > 0 then Some (t + n) else None)"
  by (auto simp: whp_end_def date_add_def split: if_splits)

lemma whp_ends_Inr:
  assumes "whp_ends t (Some p) = Inr ends"
  shows "ends = ((if pr_meat_whp_days p > 0 then Some (t + pr_meat_whp_days p) else None),
                 (if pr_milk_whp_days p > 0 then Some (t + pr_milk_whp_days p) else None),
                 (if pr_esi_days p > 0 then Some (t + pr_esi_days p) else None))"
proof -
  from assms obtain m k s where
    "whp_end t (pr_meat_whp_days p) = Inr m" "whp_end t (pr_milk_whp_days p) = Inr k"
    "whp_end t (pr_esi_days p) = Inr s" "ends = (m, k, s)"
    by (auto simp: whp_ends_def split: sum.splits)
  then show ?thesis
    using whp_end_Inr by blast
qed

lemma save_event_insert:
  assumes "save_event now event db = (Inr saved, db1)" and "ev_id event = None"
  shows "\<exists>event_id. event_id \<notin> set (map ev_id (events db))
      \<and> saved = event\<lparr>ev_id := Some event_id, ev_created_at := Some now\<rparr>
      \<and> events db1 = events db @
           [\<lparr>ev_id = event_id, ev_event_type = ev_event_type event,
             ev_event_date = ev_event_date event, ev_animal_id = ev_animal_id event,
             ev_mob_id = ev_mob_id event, ev_notes = ev_notes event,
             ev_recorded_by = ev_recorded_by event, ev_created_at = Some now\<rparr>]
      \<and> animals db1 = animals db \<and> products db1 = products db
      \<and> treatment_events db1 = treatment_events db"
  using assms next_rowid_fresh [of "map ev_id (events db)" "sqlite_sequence db T_events"]
  by (auto simp: save_event_def Let_def split: if_splits)

lemma quick_treatment_single:
  assumes "quick_treatment_on_accept clock form [animal_id] db = (Inr True, db')"
    and "tf_product_id form = Some product_id" and "get_product db product_id = Some p"
  shows "\<exists>event_id row_id. event_id \<notin> set (map ev_id (events db))
      \<and> events db' = events db @
           [\<lparr>ev_id = event_id, ev_event_type = TREATMENT,
             ev_event_date = tf_event_date form, ev_animal_id = Some animal_id,
             ev_mob_id = None, ev_notes = tf_notes form,
             ev_recorded_by = tf_administered_by form, ev_created_at = Some (clock 0)\<rparr>]
      \<and> treatment_events db' = treatment_events db @
           [\<lparr>tr_id = row_id, tr_event_id = event_id, tr_product_id = Some product_id,
             tr_batch_number = tf_batch_number form, tr_dose = tf_dose form,
             tr_route = tf_route form, tr_administered_by = tf_administered_by form,
             tr_meat_whp_end =
               (if pr_meat_whp_days p > 0 then Some (tf_event_date form + pr_meat_whp_days p)
                else None),
             tr_milk_whp_end =
               (if pr_milk_whp_days p > 0 then Some (tf_event_date form + pr_milk_whp_days p)
                else None),
             tr_esi_end =
               (if pr_esi_days p > 0 then Some (tf_event_date form + pr_esi_days p)
                else None)\<rparr>]
      \<and> animals db' = animals db \<and> products db' = products db"
proof -
  from assms obtain ends where
    e: "whp_ends (tf_event_date form) (Some p) = Inr ends" and
    r: "record_treatments clock 0 form ends [animal_id] db = (Inr (), db')"
    by (auto simp: quick_treatment_on_accept_def split: if_splits sum.splits prod.splits)
  note ends = whp_ends_Inr [OF e]
  let ?event = "\<lparr>ev_id = None, ev_event_type = TREATMENT, ev_event_date = tf_event_date form,
      ev_animal_id = Some animal_id, ev_mob_id = None, ev_notes = tf_notes form,
      ev_recorded_by = tf_administered_by form, ev_created_at = None\<rparr>"
  let ?treatment = "\<lparr>tr_id = None, tr_event_id = None, tr_product_id = tf_product_id form,
      tr_batch_number = tf_batch_number form, tr_dose = tf_dose form,
      tr_route = tf_route form, tr_administered_by = tf_administered_by form,
      tr_meat_whp_end = fst ends, tr_milk_whp_end = fst (snd ends),
      tr_esi_end = snd (snd ends)\<rparr>"
  from r obtain saved where
    s: "save_treatment_event (clock 0) (?event\<lparr>ev_event_type := NOTE\<rparr>) ?treatment db
          = (Inr saved, db')"
    by (auto simp: Let_def split: prod.splits sum.splits)
  then obtain saved_event db1 where
    se: "save_event (clock 0) ?event db = (Inr saved_event, db1)"
    by (auto simp: save_treatment_event_def split: prod.splits sum.splits)
  from save_event_insert [OF se] obtain event_id where
    i: "event_id \<notin> set (map ev_id (events db))"
       "saved_event = ?event\<lparr>ev_id := Some event_id, ev_created_at := Some (clock 0)\<rparr>"
       "events db1 = events db @
           [\<lparr>ev_id = event_id, ev_event_type = TREATMENT,
             ev_event_date = tf_event_date form, ev_animal_id = Some animal_id,
             ev_mob_id = None, ev_notes = tf_notes form,
             ev_recorded_by = tf_administered_by form, ev_created_at = Some (clock 0)\<rparr>]"
       "animals db1 = animals db" "products db1 = products db"
       "treatment_events db1 = treatment_events db"
    by auto
  from s se i assms(2) ends show ?thesis
    by (auto simp: save_treatment_event_def Let_def split: if_splits)
qed

text \<open>
  C1 as stated fails in its second half. The query tests all three stored end dates, so
  a treatment whose product has a milk withholding period or an export slaughter
  interval longer than the meat withholding period keeps the animal listed after
  \<open>t + d\<close>. With 28 days of meat withholding and 42 days of export slaughter interval the
  animal, treated once on day 738895, is still returned for day 738924 = \<open>t + d + 1\<close>.
\<close>

theorem C1_longer_esi_counterexample:
  "map pr_meat_whp_days (products esi_untreated_db) = [28]
   \<and> get_animals_on_whp 738895 esi_untreated_db (Some 738924) = []
   \<and> map tr_meat_whp_end (treatment_events esi_treated_db) = [Some 738923]
   \<and> map w_animal_id (get_animals_on_whp 738895 esi_treated_db (Some 738924)) = [1]"
  by code_simp

text \<open>
  C1, amended. Let a product have \<^verbatim>\<open>meat_whp_days = d > 0\<close>, and let the treatment
  dialog record a treatment with it on date \<open>t\<close> for an alive animal. Then
  \<^verbatim>\<open>get_animals_on_whp(x)\<close> includes the animal for every \<open>x \<le> t + d\<close>. If moreover the
  product's milk withholding period and export slaughter interval are not longer than
  \<open>d\<close>, and before the treatment the animal was not listed for \<open>t + d + 1\<close> (no other
  treatment in force; every treatment row belongs to a stored event), then
  \<^verbatim>\<open>get_animals_on_whp(t + d + 1)\<close> excludes it.
\<close>

theorem C1_whp_window:
  assumes "get_product db product_id = Some p"
    and "pr_meat_whp_days p = d" and "d > 0"
    and "get_animal db animal_id = Some a" and "an_status a = ALIVE"
    and "tf_product_id form = Some product_id" and "tf_event_date form = t"
    and "quick_treatment_on_accept clock form [animal_id] db = (Inr True, db')"
  shows "(\<forall>x \<le> t + d. animal_id \<in> set (map w_animal_id (get_animals_on_whp today db' (Some x))))
    \<and> (pr_milk_whp_days p \<le> d \<and> pr_esi_days p \<le> d
        \<and> set (map tr_event_id (treatment_events db)) \<subseteq> set (map ev_id (events db))
        \<and> animal_id \<notin> set (map w_animal_id (get_animals_on_whp today db (Some (t + d + 1))))
       \<longrightarrow> animal_id \<notin> set (map w_animal_id (get_animals_on_whp today db' (Some (t + d + 1)))))"
proof -
  from quick_treatment_single [OF assms(8) assms(6) assms(1)]
  obtain event_id row_id e_new t_new where
    fresh: "event_id \<notin> set (map ev_id (events db))" and
    e_new: "e_new = \<lparr>ev_id = event_id, ev_event_type = TREATMENT,
             ev_event_date = tf_event_date form, ev_animal_id = Some animal_id,
             ev_mob_id = None, ev_notes = tf_notes form,
             ev_recorded_by = tf_administered_by form, ev_created_at = Some (clock 0)\<rparr>" and
    t_new: "t_new = \<lparr>tr_id = row_id, tr_event_id = event_id, tr_product_id = Some product_id,
             tr_batch_number = tf_batch_number form, tr_dose = tf_dose form,
             tr_route = tf_route form, tr_administered_by = tf_administered_by form,
             tr_meat_whp_end =
               (if pr_meat_whp_days p > 0 then Some (tf_event_date form + pr_meat_whp_days p)
                else None),
             tr_milk_whp_end =
               (if pr_milk_whp_days p > 0 then Some (tf_event_date form + pr_milk_whp_days p)
                else None),
             tr_esi_end =
               (if pr_esi_days p > 0 then Some (tf_event_date form + pr_esi_days p)
                else None)\<rparr>" and
    ev: "events db' = events db @ [e_new]" and
    tr: "treatment_events db' = treatment_events db @ [t_new]" and
    an: "animals db' = animals db"
    by blast
  from assms(4) obtain r where
    r: "r \<in> set (animals db)" "an_id r = animal_id" "a = row_to_animal r"
    by (auto simp: get_animal_def find_Some_iff in_set_conv_nth)
  with assms(5) have alive: "an_status r = ALIVE"
    by (simp add: row_to_animal_def)
  have incl: "animal_id \<in> set (map w_animal_id (get_animals_on_whp today db' (Some x)))"
    if "x \<le> t + d" for x
  proof -
    have "on_or_after (tr_meat_whp_end t_new) x"
      using that assms(2,3,7) by (simp add: t_new on_or_after_def)
    moreover have "tr_event_id t_new = ev_id e_new" "ev_animal_id e_new = Some (an_id r)"
      using r by (simp_all add: t_new e_new)
    ultimately show ?thesis
      unfolding on_whp_iff using r alive by (auto simp: ev tr an)
  qed
  have excl: "animal_id \<notin> set (map w_animal_id (get_animals_on_whp today db' (Some (t + d + 1))))"
    if milk: "pr_milk_whp_days p \<le> d" and esi: "pr_esi_days p \<le> d"
      and fk: "set (map tr_event_id (treatment_events db)) \<subseteq> set (map ev_id (events db))"
      and before: "animal_id \<notin> set (map w_animal_id (get_animals_on_whp today db (Some (t + d + 1))))"
  proof
    assume "animal_id \<in> set (map w_animal_id (get_animals_on_whp today db' (Some (t + d + 1))))"
    then obtain t1 e1 a1 where
      h: "t1 \<in> set (treatment_events db')" "e1 \<in> set (events db')" "a1 \<in> set (animals db')"
         "tr_event_id t1 = ev_id e1" "ev_animal_id e1 = Some (an_id a1)" "an_id a1 = animal_id"
         "an_status a1 = ALIVE"
         "on_or_after (tr_meat_whp_end t1) (t + d + 1) \<or> on_or_after (tr_milk_whp_end t1) (t + d + 1)
           \<or> on_or_after (tr_esi_end t1) (t + d + 1)"
      unfolding on_whp_iff by blast
    have new_expired: "\<not> (on_or_after (tr_meat_whp_end t_new) (t + d + 1)
           \<or> on_or_after (tr_milk_whp_end t_new) (t + d + 1)
           \<or> on_or_after (tr_esi_end t_new) (t + d + 1))"
      using milk esi assms(2,3,7) by (simp add: t_new on_or_after_def)
    with h(8) have "t1 \<noteq> t_new" by blast
    with h(1) have t1: "t1 \<in> set (treatment_events db)"
      by (simp add: tr)
    with fk have "tr_event_id t1 \<in> set (map ev_id (events db))"
      by auto
    with fresh h(4) have "ev_id e1 \<noteq> event_id"
      by auto
    then have "e1 \<noteq> e_new"
      by (auto simp: e_new)
    with h(2) have e1: "e1 \<in> set (events db)"
      by (simp add: ev)
    from h(3) have a1: "a1 \<in> set (animals db)"
      by (simp add: an)
    from t1 e1 a1 h(4-8)
    have "animal_id \<in> set (map w_animal_id (get_animals_on_whp today db (Some (t + d + 1))))"
      unfolding on_whp_iff by blast
    with before show False by contradiction
  qed
  from incl excl show ?thesis
    by blast
qed

theorem C1_whp_window_witness:
  "get_product untreated_db 1 \<noteq> None
   \<and> map_option pr_meat_whp_days (get_product untreated_db 1) = Some 28
   \<and> map_option an_status (get_animal untreated_db 1) = Some ALIVE
   \<and> quick_treatment_on_accept (\<lambda>k. 10 + int k) (new_treatment_form 1 738895) [1] untreated_db
       = (Inr True, treated_db)
   \<and> 1 \<in> set (map w_animal_id (get_animals_on_whp 738895 treated_db (Some 738895)))
   \<and> 1 \<in> set (map w_animal_id (get_animals_on_whp 738895 treated_db (Some 738923)))
   \<and> 1 \<notin> set (map w_animal_id (get_animals_on_whp 738895 treated_db (Some 738924)))"
proof -
  have "get_product untreated_db 1 \<noteq> None" "get_animal untreated_db 1 \<noteq> None"
    by code_simp+
  then obtain p a where p: "get_product untreated_db 1 = Some p"
      and a: "get_animal untreated_db 1 = Some a"
    by blast
  have v: "map_option pr_meat_whp_days (get_product untreated_db 1) = Some 28"
      "map_option pr_milk_whp_days (get_product untreated_db 1) = Some 0"
      "map_option pr_esi_days (get_product untreated_db 1) = Some 0"
      "map_option an_status (get_animal untreated_db 1) = Some ALIVE"
    by code_simp+
  have f: "tf_product_id (new_treatment_form 1 738895) = Some 1"
      "tf_event_date (new_treatment_form 1 738895) = 738895"
    by (simp_all add: new_treatment_form_def)
  have "fst (quick_treatment_on_accept (\<lambda>k. 10 + int k) (new_treatment_form 1 738895) [1]
       untreated_db) = Inr True"
    by code_simp
  then have q: "quick_treatment_on_accept (\<lambda>k. 10 + int k) (new_treatment_form 1 738895) [1]
       untreated_db = (Inr True, treated_db)"
    by (simp add: treated_db_def prod_eq_iff)
  have before: "set (map tr_event_id (treatment_events untreated_db))
        \<subseteq> set (map ev_id (events untreated_db))"
      "1 \<notin> set (map w_animal_id (get_animals_on_whp 738895 untreated_db (Some (738895 + 28 + 1))))"
    by code_simp+
  from v p a have pa: "pr_meat_whp_days p = 28" "pr_milk_whp_days p \<le> 28" "pr_esi_days p \<le> 28"
      "an_status a = ALIVE"
    by simp_all
  from C1_whp_window [OF p pa(1) _ a pa(4) f q, of 738895] pa(2,3) before v(1,4) q p
  show ?thesis
    by simp
qed

subsection \<open>Insert or update by identity\<close>

lemma sql_update_nth:
  "k < length rows \<Longrightarrow> sql_update P f rows ! k = (if P (rows ! k) then f (rows ! k) else rows ! k)"
  by (simp add: sql_update_def)

lemma length_sql_update: "length (sql_update P f rows) = length rows"
  by (simp add: sql_update_def)

lemma map_sql_update_id:
  "(\<And>r. g (f r) = g r) \<Longrightarrow> map g (sql_update P f rows) = map g rows"
  by (simp add: sql_update_def)







subsection \<open>Deleting a mob\<close>

lemma same_id_same_row:
  assumes "distinct (map an_id rows)" and "x \<in> set rows" and "r \<in> set rows"
    and "an_id x = an_id r"
  shows "x = r"
  using assms by (meson distinct_map inj_onD)

lemma save_animal_unassign:
  assumes d: "distinct (map an_id (animals db))"
    and r: "r \<in> set (animals db)"
    and fk: "fk_ok (an_dam_id r) (map an_id (animals db))"
            "fk_ok (an_sire_id r) (map an_id (animals db))"
  shows "\<exists>saved db1. save_animal now ((row_to_animal r)\<lparr>an_mob_id := None\<rparr>) db = (Inr saved, db1)
     \<and> animals db1 =
         map (\<lambda>x. if x = r then r\<lparr>an_mob_id := None, an_updated_at := Some now\<rparr> else x)
           (animals db)
     \<and> mobs db1 = mobs db \<and> events db1 = events db \<and> tasks db1 = tasks db"
proof -
  have "map (\<lambda>x. if an_id x = an_id r
                  then x\<lparr>an_eid := an_eid r, an_visual_tag := an_visual_tag r,
                          an_species := an_species r, an_breed := an_breed r,
                          an_sex := an_sex r, an_date_of_birth := an_date_of_birth r,
                          an_status := an_status r, an_mob_id := None,
                          an_dam_id := an_dam_id r, an_sire_id := an_sire_id r,
                          an_notes := an_notes r, an_updated_at := Some now\<rparr>
                  else x) (animals db)
      = map (\<lambda>x. if x = r then r\<lparr>an_mob_id := None, an_updated_at := Some now\<rparr> else x)
          (animals db)"
  proof (rule map_cong [OF refl])
    fix x assume x: "x \<in> set (animals db)"
    show "(if an_id x = an_id r
           then x\<lparr>an_eid := an_eid r, an_visual_tag := an_visual_tag r,
                   an_species := an_species r, an_breed := an_breed r,
                   an_sex := an_sex r, an_date_of_birth := an_date_of_birth r,
                   an_status := an_status r, an_mob_id := None,
                   an_dam_id := an_dam_id r, an_sire_id := an_sire_id r,
                   an_notes := an_notes r, an_updated_at := Some now\<rparr>
           else x)
        = (if x = r then r\<lparr>an_mob_id := None, an_updated_at := Some now\<rparr> else x)"
      using same_id_same_row [OF d x r] by auto
  qed
  then show ?thesis
    using fk by (simp add: save_animal_def row_to_animal_def sql_update_def fk_ok_def)
qed


lemma unassign_loop:
  assumes "distinct (map an_id (animals db))"
    and "\<forall>r \<in> set (animals db). fk_ok (an_dam_id r) (map an_id (animals db))
                                \<and> fk_ok (an_sire_id r) (map an_id (animals db))"
    and "set rows \<subseteq> set (animals db)" and "distinct (map an_id rows)"
  shows "\<exists>db1 g. unassign_animals clock k (map row_to_animal rows) db = (Inr (), db1)
      \<and> animals db1 =
          map (\<lambda>x. if x \<in> set rows then x\<lparr>an_mob_id := None, an_updated_at := Some (g x)\<rparr>
                    else x) (animals db)
      \<and> mobs db1 = mobs db \<and> events db1 = events db \<and> tasks db1 = tasks db"
  using assms
proof (induction rows arbitrary: db k)
  case Nil
  then show ?case by simp
next
  case (Cons r rest)
  let ?upd = "\<lambda>x. if x = r then r\<lparr>an_mob_id := None, an_updated_at := Some (clock k)\<rparr> else x"
  from Cons.prems have r: "r \<in> set (animals db)"
    and fkr: "fk_ok (an_dam_id r) (map an_id (animals db))"
             "fk_ok (an_sire_id r) (map an_id (animals db))"
    by auto
  from save_animal_unassign [OF Cons.prems(1) r fkr, of "clock k"]
  obtain saved db2 where
    s: "save_animal (clock k) ((row_to_animal r)\<lparr>an_mob_id := None\<rparr>) db = (Inr saved, db2)"
    and a2: "animals db2 = map ?upd (animals db)"
    and o2: "mobs db2 = mobs db" "events db2 = events db" "tasks db2 = tasks db"
    by blast
  have ids2: "map an_id (animals db2) = map an_id (animals db)"
    by (simp add: a2)
  have d2: "distinct (map an_id (animals db2))"
    using Cons.prems(1) by (simp add: ids2)
  have fk2: "\<forall>x \<in> set (animals db2). fk_ok (an_dam_id x) (map an_id (animals db2))
                                \<and> fk_ok (an_sire_id x) (map an_id (animals db2))"
    unfolding ids2 using Cons.prems(2) by (auto simp: a2)
  have other: "y \<noteq> r \<and> an_id y \<noteq> an_id r" if "y \<in> set rest" for y
  proof -
    from that have "an_id y \<in> set (map an_id rest)" by simp
    moreover from Cons.prems(4) have "an_id r \<notin> set (map an_id rest)" by simp
    ultimately show ?thesis by auto
  qed
  have sub2: "set rest \<subseteq> set (animals db2)"
  proof
    fix y assume y: "y \<in> set rest"
    with Cons.prems(3) have "y \<in> set (animals db)" by auto
    then have "?upd y \<in> ?upd ` set (animals db)" by (rule imageI)
    moreover from other [OF y] have "?upd y = y" by simp
    ultimately have "y \<in> ?upd ` set (animals db)" by simp
    then show "y \<in> set (animals db2)"
      by (simp add: a2)
  qed
  have dl2: "distinct (map an_id rest)"
    using Cons.prems(4) by simp
  from Cons.IH [OF d2 fk2 sub2 dl2, of "Suc k"]
  obtain db1 g where
    u: "unassign_animals clock (Suc k) (map row_to_animal rest) db2 = (Inr (), db1)"
    and a1: "animals db1 =
          map (\<lambda>x. if x \<in> set rest then x\<lparr>an_mob_id := None, an_updated_at := Some (g x)\<rparr>
                    else x) (animals db2)"
    and o1: "mobs db1 = mobs db2" "events db1 = events db2" "tasks db1 = tasks db2"
    by blast
  have updated_not_rest: "r\<lparr>an_mob_id := None, an_updated_at := Some (clock k)\<rparr> \<notin> set rest"
    using other by force
  have a: "animals db1 =
          map (\<lambda>x. if x \<in> set (r # rest)
                    then x\<lparr>an_mob_id := None, an_updated_at := Some ((g(r := clock k)) x)\<rparr>
                    else x) (animals db)"
    unfolding a1 a2 map_map
  proof (rule map_cong [OF refl])
    fix x assume "x \<in> set (animals db)"
    show "((\<lambda>x. if x \<in> set rest then x\<lparr>an_mob_id := None, an_updated_at := Some (g x)\<rparr> else x)
            \<circ> ?upd) x
        = (if x \<in> set (r # rest)
           then x\<lparr>an_mob_id := None, an_updated_at := Some ((g(r := clock k)) x)\<rparr> else x)"
      using updated_not_rest other by auto
  qed
  have b: "unassign_animals clock k (map row_to_animal (r # rest)) db = (Inr (), db1)"
    using s u by simp
  show ?case
    by (rule exI [of _ db1], rule exI [of _ "g(r := clock k)"]) (simp only: a b o1 o2 simp_thms)
qed

lemma mob_rows:
  assumes "distinct (map an_id (animals db))"
  shows "set (sort_key animal_order (filter (\<lambda>r. an_mob_id r = Some i) (animals db)))
           = {r \<in> set (animals db). an_mob_id r = Some i}"
    and "distinct (map an_id
           (sort_key animal_order (filter (\<lambda>r. an_mob_id r = Some i) (animals db))))"
proof -
  show "set (sort_key animal_order (filter (\<lambda>r. an_mob_id r = Some i) (animals db)))
           = {r \<in> set (animals db). an_mob_id r = Some i}"
    by auto
  have "distinct (map an_id (filter (\<lambda>r. an_mob_id r = Some i) (animals db)))"
    using assms by (rule distinct_map_filter)
  moreover have "mset (map an_id
           (sort_key animal_order (filter (\<lambda>r. an_mob_id r = Some i) (animals db))))
      = mset (map an_id (filter (\<lambda>r. an_mob_id r = Some i) (animals db)))"
    by simp
  ultimately show "distinct (map an_id
           (sort_key animal_order (filter (\<lambda>r. an_mob_id r = Some i) (animals db))))"
    by (metis mset_eq_imp_distinct_iff)
qed


text \<open>
  C8 as stated fails in one field: the dialog unassigns each animal through
  \<^verbatim>\<open>save_animal\<close>, which also sets \<^verbatim>\<open>updated_at\<close>. After deleting mob 1, the two animals
  that were in it carry the times of the two saves instead of their former update
  times.
\<close>

theorem C8_updated_at_counterexample:
  "map an_mob_id (animals mob_db) = [Some 1, None, Some 1]
   \<and> map an_updated_at (animals mob_db) = [Some 2, Some 3, Some 4]
   \<and> fst (on_delete_mob (\<lambda>k. 20 + int k) (Some 1) True mob_db) = Inr ()
   \<and> map an_mob_id (animals (snd (on_delete_mob (\<lambda>k. 20 + int k) (Some 1) True mob_db)))
       = [None, None, None]
   \<and> map an_updated_at (animals (snd (on_delete_mob (\<lambda>k. 20 + int k) (Some 1) True mob_db)))
       = [Some 21, Some 3, Some 20]"
  by code_simp

text \<open>
  C8, amended. On a store whose animal identities are distinct and whose dam and sire
  references point to stored animals, confirming the deletion of an existing mob first
  saves every animal of the mob with its mob reference set to null (each such row keeps
  all its fields except \<^verbatim>\<open>mob_id\<close>, now null, and \<^verbatim>\<open>updated_at\<close>, now the time of the
  save; every other animal row is untouched), and only then calls \<^verbatim>\<open>delete_mob\<close> on the
  resulting store. \<^verbatim>\<open>delete_mob\<close> changes no animal row; it removes the mob row unless
  an event or a task still references the mob, in which case it raises.
\<close>

theorem C8_delete_mob_unassigns_animals:
  assumes "i \<noteq> 0" and "i \<in> set (map mob_id (mobs db))"
    and "distinct (map an_id (animals db))"
    and "\<forall>r \<in> set (animals db). fk_ok (an_dam_id r) (map an_id (animals db))
                                \<and> fk_ok (an_sire_id r) (map an_id (animals db))"
  shows "\<exists>db1 g. unassign_animals clock 0 (get_animals_by_mob db i) db = (Inr (), db1)
     \<and> on_delete_mob clock (Some i) True db = delete_mob i db1
     \<and> animals db1 =
         map (\<lambda>r. if an_mob_id r = Some i
                   then r\<lparr>an_mob_id := None, an_updated_at := Some (g r)\<rparr> else r) (animals db)
     \<and> animals (snd (on_delete_mob clock (Some i) True db)) = animals db1
     \<and> (fst (on_delete_mob clock (Some i) True db) = Inr ()
          \<longrightarrow> i \<notin> set (map mob_id (mobs (snd (on_delete_mob clock (Some i) True db)))))
     \<and> (Some i \<notin> set (map ev_mob_id (events db)) \<and> Some i \<notin> set (map tk_mob_id (tasks db))
          \<longrightarrow> fst (on_delete_mob clock (Some i) True db) = Inr ())"
proof -
  let ?rows = "sort_key animal_order (filter (\<lambda>r. an_mob_id r = Some i) (animals db))"
  have rows: "set ?rows = {r \<in> set (animals db). an_mob_id r = Some i}"
    and drows: "distinct (map an_id ?rows)"
    using mob_rows [OF assms(3), of i] by blast+
  from rows have sub: "set ?rows \<subseteq> set (animals db)"
    by blast
  from unassign_loop [OF assms(3) assms(4) sub drows, of clock 0]
  obtain db1 g where
    u: "unassign_animals clock 0 (map row_to_animal ?rows) db = (Inr (), db1)"
    and a: "animals db1 =
          map (\<lambda>x. if x \<in> set ?rows then x\<lparr>an_mob_id := None, an_updated_at := Some (g x)\<rparr>
                    else x) (animals db)"
    and o: "mobs db1 = mobs db" "events db1 = events db" "tasks db1 = tasks db"
    by blast
  have a': "animals db1 =
         map (\<lambda>r. if an_mob_id r = Some i
                   then r\<lparr>an_mob_id := None, an_updated_at := Some (g r)\<rparr> else r) (animals db)"
    unfolding a
  proof (rule map_cong [OF refl])
    fix x assume "x \<in> set (animals db)"
    then have "x \<in> set ?rows \<longleftrightarrow> an_mob_id x = Some i"
      unfolding rows by simp
    then show "(if x \<in> set ?rows then x\<lparr>an_mob_id := None, an_updated_at := Some (g x)\<rparr> else x)
        = (if an_mob_id x = Some i then x\<lparr>an_mob_id := None, an_updated_at := Some (g x)\<rparr> else x)"
      by simp
  qed
  have u': "unassign_animals clock 0 (get_animals_by_mob db i) db = (Inr (), db1)"
    using u by (simp add: get_animals_by_mob_def)
  from assms(2) obtain mob where mob: "get_mob db i = Some mob"
    by (cases "find (\<lambda>r. mob_id r = i) (mobs db)") (auto simp: get_mob_def find_None_iff)
  have flow: "on_delete_mob clock (Some i) True db = delete_mob i db1"
    using assms(1) mob u' by (simp add: on_delete_mob_def truthy_def)
  have unassigned: "Some i \<notin> set (map an_mob_id (animals db1))"
    unfolding a' by (auto split: if_splits)
  have kept: "animals (snd (delete_mob i db1)) = animals db1"
    by (simp add: delete_mob_def)
  have removed: "fst (delete_mob i db1) = Inr ()
      \<longrightarrow> i \<notin> set (map mob_id (mobs (snd (delete_mob i db1))))"
    by (auto simp: delete_mob_def sql_delete_def split: if_splits)
  have ok: "Some i \<notin> set (map ev_mob_id (events db)) \<and> Some i \<notin> set (map tk_mob_id (tasks db))
      \<longrightarrow> fst (delete_mob i db1) = Inr ()"
    using unassigned o by (simp add: delete_mob_def)
  show ?thesis
    by (rule exI [of _ db1], rule exI [of _ g], insert u' a' kept removed ok, simp add: flow)
qed

theorem C8_delete_mob_unassigns_animals_witness:
  "(1::int) \<noteq> 0 \<and> 1 \<in> set (map mob_id (mobs mob_db)) \<and> distinct (map an_id (animals mob_db))
   \<and> (\<exists>db1 g. unassign_animals (\<lambda>k. 20 + int k) 0 (get_animals_by_mob mob_db 1) mob_db
                  = (Inr (), db1)
        \<and> on_delete_mob (\<lambda>k. 20 + int k) (Some 1) True mob_db = delete_mob 1 db1
        \<and> animals db1 =
            map (\<lambda>r. if an_mob_id r = Some 1
                      then r\<lparr>an_mob_id := None, an_updated_at := Some (g r)\<rparr> else r)
              (animals mob_db)
        \<and> animals (snd (on_delete_mob (\<lambda>k. 20 + int k) (Some 1) True mob_db)) = animals db1)
   \<and> fst (on_delete_mob (\<lambda>k. 20 + int k) (Some 1) True mob_db) = Inr ()
   \<and> mobs (snd (on_delete_mob (\<lambda>k. 20 + int k) (Some 1) True mob_db)) = []
   \<and> map an_visual_tag (animals (snd (on_delete_mob (\<lambda>k. 20 + int k) (Some 1) True mob_db)))
       = [''W2'', ''K7'', ''W1'']"
proof -
  have h: "(1::int) \<noteq> 0" "1 \<in> set (map mob_id (mobs mob_db))"
      "distinct (map an_id (animals mob_db))"
      "\<forall>r \<in> set (animals mob_db). fk_ok (an_dam_id r) (map an_id (animals mob_db))
                                \<and> fk_ok (an_sire_id r) (map an_id (animals mob_db))"
    by code_simp+
  have v: "fst (on_delete_mob (\<lambda>k. 20 + int k) (Some 1) True mob_db) = Inr ()"
      "mobs (snd (on_delete_mob (\<lambda>k. 20 + int k) (Some 1) True mob_db)) = []"
      "map an_visual_tag (animals (snd (on_delete_mob (\<lambda>k. 20 + int k) (Some 1) True mob_db)))
       = [''W2'', ''K7'', ''W1'']"
    by code_simp+
  from C8_delete_mob_unassigns_animals [OF h, of "\<lambda>k. 20 + int k"]
  have "\<exists>db1 g. unassign_animals (\<lambda>k. 20 + int k) 0 (get_animals_by_mob mob_db 1) mob_db
                  = (Inr (), db1)
        \<and> on_delete_mob (\<lambda>k. 20 + int k) (Some 1) True mob_db = delete_mob 1 db1
        \<and> animals db1 =
            map (\<lambda>r. if an_mob_id r = Some 1
                      then r\<lparr>an_mob_id := None, an_updated_at := Some (g r)\<rparr> else r)
              (animals mob_db)
        \<and> animals (snd (on_delete_mob (\<lambda>k. 20 + int k) (Some 1) True mob_db)) = animals db1"
    by blast
  with h(1-3) v show ?thesis
    by blast
qed

subsection \<open>Typed events and their detail rows\<close>

lemma save_event_returns_id:
  assumes "save_event now x db = (Inr x', db1)"
  shows "ev_event_type x' = ev_event_type x
     \<and> (\<exists>i. ev_id x' = Some i
            \<and> (\<forall>r \<in> set (events db1). ev_id r = i \<longrightarrow> ev_event_type r = ev_event_type x))"
proof (cases "ev_id x")
  case None
  from save_event_insert [OF assms None] obtain i where
    i: "i \<notin> set (map ev_id (events db))"
       "x' = x\<lparr>ev_id := Some i, ev_created_at := Some now\<rparr>"
       "events db1 = events db @
           [\<lparr>ev_id = i, ev_event_type = ev_event_type x,
             ev_event_date = ev_event_date x, ev_animal_id = ev_animal_id x,
             ev_mob_id = ev_mob_id x, ev_notes = ev_notes x,
             ev_recorded_by = ev_recorded_by x, ev_created_at = Some now\<rparr>]"
    by blast
  have "ev_event_type r = ev_event_type x" if "r \<in> set (events db1)" "ev_id r = i" for r
  proof (cases "r \<in> set (events db)")
    case True
    then have "ev_id r \<in> set (map ev_id (events db))" by simp
    with i(1) that(2) show ?thesis by simp
  next
    case False
    with that(1) show ?thesis by (simp add: i(3))
  qed
  with i(2) show ?thesis
    by simp
next
  case (Some i)
  from assms Some have x': "x' = x"
    and ev: "events db1 =
        map (\<lambda>r. if ev_id r = i
                  then r\<lparr>ev_event_type := ev_event_type x, ev_event_date := ev_event_date x,
                          ev_animal_id := ev_animal_id x, ev_mob_id := ev_mob_id x,
                          ev_notes := ev_notes x, ev_recorded_by := ev_recorded_by x\<rparr>
                  else r) (events db)"
    by (auto simp: save_event_def sql_update_def split: if_splits)
  let ?f = "\<lambda>r. if ev_id r = i
                  then r\<lparr>ev_event_type := ev_event_type x, ev_event_date := ev_event_date x,
                          ev_animal_id := ev_animal_id x, ev_mob_id := ev_mob_id x,
                          ev_notes := ev_notes x, ev_recorded_by := ev_recorded_by x\<rparr>
                  else r"
  have "ev_event_type r = ev_event_type x" if "r \<in> set (events db1)" "ev_id r = i" for r
  proof -
    from that(1) have "r \<in> ?f ` set (events db)"
      by (simp add: ev)
    then obtain r0 where "r = ?f r0"
      by (rule imageE)
    with that(2) show ?thesis
      by (cases "ev_id r0 = i") simp_all
  qed
  with x' Some show ?thesis
    by simp
qed

lemma image_sql_update:
  assumes "\<And>r. g (f r) = g r"
  shows "g ` set (sql_update P f rows) = g ` set rows"
proof -
  have "map g (sql_update P f rows) = map g rows"
    using assms by (rule map_sql_update_id)
  then have "set (map g (sql_update P f rows)) = set (map g rows)"
    by simp
  then show ?thesis
    by (simp only: set_map)
qed

lemma save_movement_event_details:
  "set (map mv_event_id (movement_events (snd (save_movement_event now x d db))))
     = set (map mv_event_id (movement_events db))
       \<union> snd ` set (typed_insert (Save_movement_event now x d) db)"
proof -
  obtain r db1 where eq: "save_event now (x\<lparr>ev_event_type := MOVEMENT\<rparr>) db = (r, db1)"
    by (cases "save_event now (x\<lparr>ev_event_type := MOVEMENT\<rparr>) db")
  have "movement_events db1 = movement_events db"
    using save_event_details(1) [of now "x\<lparr>ev_event_type := MOVEMENT\<rparr>" db] eq by simp
  then show ?thesis
    by (simp add: save_movement_event_def eq Let_def image_sql_update
          split: sum.split option.split)
qed

lemma save_treatment_event_details:
  "set (map tr_event_id (treatment_events (snd (save_treatment_event now x d db))))
     = set (map tr_event_id (treatment_events db))
       \<union> snd ` set (typed_insert (Save_treatment_event now x d) db)"
proof -
  obtain r db1 where eq: "save_event now (x\<lparr>ev_event_type := TREATMENT\<rparr>) db = (r, db1)"
    by (cases "save_event now (x\<lparr>ev_event_type := TREATMENT\<rparr>) db")
  have "treatment_events db1 = treatment_events db"
    using save_event_details(2) [of now "x\<lparr>ev_event_type := TREATMENT\<rparr>" db] eq by simp
  then show ?thesis
    by (simp add: save_treatment_event_def eq Let_def image_sql_update
          split: sum.split option.split)
qed

lemma save_weigh_event_details:
  "set (map wg_event_id (weigh_events (snd (save_weigh_event now x d db))))
     = set (map wg_event_id (weigh_events db))
       \<union> snd ` set (typed_insert (Save_weigh_event now x d) db)"
proof -
  obtain r db1 where eq: "save_event now (x\<lparr>ev_event_type := WEIGH\<rparr>) db = (r, db1)"
    by (cases "save_event now (x\<lparr>ev_event_type := WEIGH\<rparr>) db")
  have "weigh_events db1 = weigh_events db"
    using save_event_details(3) [of now "x\<lparr>ev_event_type := WEIGH\<rparr>" db] eq by simp
  then show ?thesis
    by (simp add: save_weigh_event_def eq Let_def image_sql_update
          split: sum.split option.split)
qed


lemma typed_insert_fst:
  "set (typed_insert (Save_movement_event now x m) db) \<subseteq> {MOVEMENT} \<times> UNIV"
  "set (typed_insert (Save_treatment_event now x t) db) \<subseteq> {TREATMENT} \<times> UNIV"
  "set (typed_insert (Save_weigh_event now x w) db) \<subseteq> {WEIGH} \<times> UNIV"
  by (auto split: sum.splits option.splits prod.splits if_splits)

lemma typed_insert_other: "\<not> is_typed_save c \<Longrightarrow> typed_insert c db = []"
  by (cases c) simp_all

lemma exec_other_details:
  assumes "\<not> is_typed_save c"
  shows "movement_events (exec c db) = movement_events db"
    and "treatment_events (exec c db) = treatment_events db"
    and "weigh_events (exec c db) = weigh_events db"
  using assms
  by (cases c;
      simp add: save_paddock_def delete_paddock_def save_mob_def delete_mob_def
        save_animal_def delete_animal_def save_product_def delete_product_def
        save_event_details save_task_def complete_task_def delete_task_def
        save_property_settings_def Let_def
        split: option.split)+

lemma exec_movement_ids:
  "set (map mv_event_id (movement_events (exec c db)))
     = set (map mv_event_id (movement_events db)) \<union> {i. (MOVEMENT, i) \<in> set (typed_insert c db)}"
proof -
  consider (m) now x d where "c = Save_movement_event now x d"
    | (t) now x d where "c = Save_treatment_event now x d"
    | (w) now x d where "c = Save_weigh_event now x d"
    | (other) "\<not> is_typed_save c"
    by (cases c) auto
  then show ?thesis
  proof cases
    case m
    have "{i. (MOVEMENT, i) \<in> set (typed_insert c db)} = snd ` set (typed_insert c db)"
      using typed_insert_fst(1) [of now x d db] unfolding m by force
    then show ?thesis
      unfolding m exec.simps save_movement_event_details by (simp only: m)
  next
    case t
    have "{i. (MOVEMENT, i) \<in> set (typed_insert c db)} = {}"
      using typed_insert_fst(2) [of now x d db] unfolding t by force
    then show ?thesis
      unfolding t exec.simps save_treatment_event_others by (simp only: t Un_empty_right)
  next
    case w
    have "{i. (MOVEMENT, i) \<in> set (typed_insert c db)} = {}"
      using typed_insert_fst(3) [of now x d db] unfolding w by force
    then show ?thesis
      unfolding w exec.simps save_weigh_event_others by (simp only: w Un_empty_right)
  next
    case other
    then show ?thesis
      by (simp add: exec_other_details typed_insert_other del: typed_insert.simps exec.simps)
  qed
qed


lemma exec_treatment_ids:
  "set (map tr_event_id (treatment_events (exec c db)))
     = set (map tr_event_id (treatment_events db)) \<union> {i. (TREATMENT, i) \<in> set (typed_insert c db)}"
proof -
  consider (m) now x d where "c = Save_movement_event now x d"
    | (t) now x d where "c = Save_treatment_event now x d"
    | (w) now x d where "c = Save_weigh_event now x d"
    | (other) "\<not> is_typed_save c"
    by (cases c) auto
  then show ?thesis
  proof cases
    case m
    have "{i. (TREATMENT, i) \<in> set (typed_insert c db)} = {}"
      using typed_insert_fst(1) [of now x d db] unfolding m by force
    then show ?thesis
      unfolding m exec.simps save_movement_event_others by (simp only: m Un_empty_right)
  next
    case t
    have "{i. (TREATMENT, i) \<in> set (typed_insert c db)} = snd ` set (typed_insert c db)"
      using typed_insert_fst(2) [of now x d db] unfolding t by force
    then show ?thesis
      unfolding t exec.simps save_treatment_event_details by (simp only: t)
  next
    case w
    have "{i. (TREATMENT, i) \<in> set (typed_insert c db)} = {}"
      using typed_insert_fst(3) [of now x d db] unfolding w by force
    then show ?thesis
      unfolding w exec.simps save_weigh_event_others by (simp only: w Un_empty_right)
  next
    case other
    then show ?thesis
      by (simp add: exec_other_details typed_insert_other del: typed_insert.simps exec.simps)
  qed
qed

lemma exec_weigh_ids:
  "set (map wg_event_id (weigh_events (exec c db)))
     = set (map wg_event_id (weigh_events db)) \<union> {i. (WEIGH, i) \<in> set (typed_insert c db)}"
proof -
  consider (m) now x d where "c = Save_movement_event now x d"
    | (t) now x d where "c = Save_treatment_event now x d"
    | (w) now x d where "c = Save_weigh_event now x d"
    | (other) "\<not> is_typed_save c"
    by (cases c) auto
  then show ?thesis
  proof cases
    case m
    have "{i. (WEIGH, i) \<in> set (typed_insert c db)} = {}"
      using typed_insert_fst(1) [of now x d db] unfolding m by force
    then show ?thesis
      unfolding m exec.simps save_movement_event_others by (simp only: m Un_empty_right)
  next
    case t
    have "{i. (WEIGH, i) \<in> set (typed_insert c db)} = {}"
      using typed_insert_fst(2) [of now x d db] unfolding t by force
    then show ?thesis
      unfolding t exec.simps save_treatment_event_others by (simp only: t Un_empty_right)
  next
    case w
    have "{i. (WEIGH, i) \<in> set (typed_insert c db)} = snd ` set (typed_insert c db)"
      using typed_insert_fst(3) [of now x d db] unfolding w by force
    then show ?thesis
      unfolding w exec.simps save_weigh_event_details by (simp only: w)
  next
    case other
    then show ?thesis
      by (simp add: exec_other_details typed_insert_other del: typed_insert.simps exec.simps)
  qed
qed

lemma typed_insert_subtypes:
  "(ty, i) \<in> set (typed_insert c db) \<Longrightarrow> ty = MOVEMENT \<or> ty = TREATMENT \<or> ty = WEIGH"
proof -
  assume a: "(ty, i) \<in> set (typed_insert c db)"
  consider (m) now x d where "c = Save_movement_event now x d"
    | (t) now x d where "c = Save_treatment_event now x d"
    | (w) now x d where "c = Save_weigh_event now x d"
    | (other) "\<not> is_typed_save c"
    by (cases c) auto
  then show ?thesis
  proof cases
    case m
    with a typed_insert_fst(1) [of now x d db] show ?thesis by blast
  next
    case t
    with a typed_insert_fst(2) [of now x d db] show ?thesis by blast
  next
    case w
    with a typed_insert_fst(3) [of now x d db] show ?thesis by blast
  next
    case other
    with a show ?thesis by (simp add: typed_insert_other del: typed_insert.simps)
  qed
qed

lemma exec_has_detail:
  "has_detail (exec c db) ty i \<longleftrightarrow> has_detail db ty i \<or> (ty, i) \<in> set (typed_insert c db)"
proof (cases "ty = MOVEMENT \<or> ty = TREATMENT \<or> ty = WEIGH")
  case True
  then show ?thesis
    using exec_movement_ids [of c db] exec_treatment_ids [of c db] exec_weigh_ids [of c db]
    by (auto simp del: typed_insert.simps exec.simps set_map)
next
  case False
  then have "\<not> has_detail (exec c db) ty i" "\<not> has_detail db ty i"
    by (cases ty; simp)+
  with False show ?thesis
    using typed_insert_subtypes [of ty i c db] by blast
qed

lemma run_has_detail:
  "has_detail (run cs db) ty i \<longleftrightarrow> has_detail db ty i \<or> (ty, i) \<in> set (typed_inserts cs db)"
proof (induction cs arbitrary: db)
  case Nil
  show ?case by simp
next
  case (Cons c cs)
  show ?case
    unfolding run.simps typed_inserts.simps Cons.IH exec_has_detail by auto
qed

lemma empty_db_no_detail: "\<not> has_detail empty_db ty i"
  by (cases ty) (simp_all add: empty_db_def)


lemma save_movement_event_forces_type:
  assumes "save_movement_event now x m db = (Inr (x', m'), db')"
  shows "ev_event_type x' = MOVEMENT
     \<and> (\<exists>i. ev_id x' = Some i
            \<and> (\<forall>r \<in> set (events db'). ev_id r = i \<longrightarrow> ev_event_type r = MOVEMENT)
            \<and> (mv_id m = None \<longrightarrow> mv_event_id m' = Some i \<and> has_detail db' MOVEMENT i))"
proof -
  obtain r db1 where eq: "save_event now (x\<lparr>ev_event_type := MOVEMENT\<rparr>) db = (r, db1)"
    by (cases "save_event now (x\<lparr>ev_event_type := MOVEMENT\<rparr>) db")
  from assms have r: "r = Inr x'" and ev: "events db' = events db1"
    by (auto simp: save_movement_event_def eq Let_def split: sum.splits option.splits if_splits)
  from save_event_returns_id [OF eq [unfolded r]] obtain i where
    i: "ev_event_type x' = MOVEMENT" "ev_id x' = Some i"
       "\<forall>r \<in> set (events db1). ev_id r = i \<longrightarrow> ev_event_type r = MOVEMENT"
    by auto
  from assms i(2) have "mv_id m = None \<longrightarrow> mv_event_id m' = Some i \<and> has_detail db' MOVEMENT i"
    by (auto simp: save_movement_event_def eq r Let_def split: option.splits if_splits)
  with i ev show ?thesis
    by simp
qed

lemma save_treatment_event_forces_type:
  assumes "save_treatment_event now x t db = (Inr (x', t'), db')"
  shows "ev_event_type x' = TREATMENT
     \<and> (\<exists>i. ev_id x' = Some i
            \<and> (\<forall>r \<in> set (events db'). ev_id r = i \<longrightarrow> ev_event_type r = TREATMENT)
            \<and> (tr_id t = None \<longrightarrow> tr_event_id t' = Some i \<and> has_detail db' TREATMENT i))"
proof -
  obtain r db1 where eq: "save_event now (x\<lparr>ev_event_type := TREATMENT\<rparr>) db = (r, db1)"
    by (cases "save_event now (x\<lparr>ev_event_type := TREATMENT\<rparr>) db")
  from assms have r: "r = Inr x'" and ev: "events db' = events db1"
    by (auto simp: save_treatment_event_def eq Let_def split: sum.splits option.splits if_splits)
  from save_event_returns_id [OF eq [unfolded r]] obtain i where
    i: "ev_event_type x' = TREATMENT" "ev_id x' = Some i"
       "\<forall>r \<in> set (events db1). ev_id r = i \<longrightarrow> ev_event_type r = TREATMENT"
    by auto
  from assms i(2) have "tr_id t = None \<longrightarrow> tr_event_id t' = Some i \<and> has_detail db' TREATMENT i"
    by (auto simp: save_treatment_event_def eq r Let_def split: option.splits if_splits)
  with i ev show ?thesis
    by simp
qed

lemma save_weigh_event_forces_type:
  assumes "save_weigh_event now x w db = (Inr (x', w'), db')"
  shows "ev_event_type x' = WEIGH
     \<and> (\<exists>i. ev_id x' = Some i
            \<and> (\<forall>r \<in> set (events db'). ev_id r = i \<longrightarrow> ev_event_type r = WEIGH)
            \<and> (wg_id w = None \<longrightarrow> wg_event_id w' = Some i \<and> has_detail db' WEIGH i))"
proof -
  obtain r db1 where eq: "save_event now (x\<lparr>ev_event_type := WEIGH\<rparr>) db = (r, db1)"
    by (cases "save_event now (x\<lparr>ev_event_type := WEIGH\<rparr>) db")
  from assms have r: "r = Inr x'" and ev: "events db' = events db1"
    by (auto simp: save_weigh_event_def eq Let_def split: sum.splits option.splits if_splits)
  from save_event_returns_id [OF eq [unfolded r]] obtain i where
    i: "ev_event_type x' = WEIGH" "ev_id x' = Some i"
       "\<forall>r \<in> set (events db1). ev_id r = i \<longrightarrow> ev_event_type r = WEIGH"
    by auto
  from assms i(2) have "wg_id w = None \<longrightarrow> wg_event_id w' = Some i \<and> has_detail db' WEIGH i"
    by (auto simp: save_weigh_event_def eq r Let_def split: option.splits if_splits)
  with i ev show ?thesis
    by simp
qed

text \<open>
  C9 as stated fails. A typed save whose detail record already carries an identity takes
  the update branch, which attaches nothing: \<^verbatim>\<open>save_treatment_event\<close> for a new event
  and a detail with identity 7, which no row has, returns normally and leaves an event
  row of type treatment without a detail row, although it was recorded through the typed
  save.
\<close>

theorem C9_update_branch_counterexample:
  "\<not> detail_iff_recorded (run stale_detail_commands empty_db)
        (typed_saves stale_detail_commands empty_db)
   \<and> map (\<lambda>e. (ev_id e, ev_event_type e)) (events (run stale_detail_commands empty_db))
       = [(1, TREATMENT)]
   \<and> treatment_events (run stale_detail_commands empty_db) = []
   \<and> typed_saves stale_detail_commands empty_db = [(TREATMENT, 1)]"
  by code_simp

text \<open>
  C9, amended. In every store reached from the empty store by operations of the
  persistence layer, an event row of type movement, treatment or weigh has its detail
  row iff a typed save of that subtype, called with a detail record without identity
  (the insert branch), returned for that event. Every typed save that returns has set the
  type of the event it returns, and of the stored row with that identity, to its own
  subtype, and on the insert branch the new detail row is attached to that event.
\<close>

theorem C9_detail_iff_typed_insert:
  "detail_iff_recorded (run cs empty_db) (typed_inserts cs empty_db)
   \<and> (save_movement_event now x m db = (Inr (x', m'), db') \<longrightarrow>
        ev_event_type x' = MOVEMENT
        \<and> (\<exists>i. ev_id x' = Some i
              \<and> (\<forall>r \<in> set (events db'). ev_id r = i \<longrightarrow> ev_event_type r = MOVEMENT)
              \<and> (mv_id m = None \<longrightarrow> mv_event_id m' = Some i \<and> has_detail db' MOVEMENT i)))
   \<and> (save_treatment_event now x t db = (Inr (x', t'), db') \<longrightarrow>
        ev_event_type x' = TREATMENT
        \<and> (\<exists>i. ev_id x' = Some i
              \<and> (\<forall>r \<in> set (events db'). ev_id r = i \<longrightarrow> ev_event_type r = TREATMENT)
              \<and> (tr_id t = None \<longrightarrow> tr_event_id t' = Some i \<and> has_detail db' TREATMENT i)))
   \<and> (save_weigh_event now x w db = (Inr (x', w'), db') \<longrightarrow>
        ev_event_type x' = WEIGH
        \<and> (\<exists>i. ev_id x' = Some i
              \<and> (\<forall>r \<in> set (events db'). ev_id r = i \<longrightarrow> ev_event_type r = WEIGH)
              \<and> (wg_id w = None \<longrightarrow> wg_event_id w' = Some i \<and> has_detail db' WEIGH i)))"
proof (intro conjI)
  show "detail_iff_recorded (run cs empty_db) (typed_inserts cs empty_db)"
    unfolding detail_iff_recorded_def run_has_detail by (simp add: empty_db_no_detail)
  show "save_movement_event now x m db = (Inr (x', m'), db') \<longrightarrow>
        ev_event_type x' = MOVEMENT
        \<and> (\<exists>i. ev_id x' = Some i
              \<and> (\<forall>r \<in> set (events db'). ev_id r = i \<longrightarrow> ev_event_type r = MOVEMENT)
              \<and> (mv_id m = None \<longrightarrow> mv_event_id m' = Some i \<and> has_detail db' MOVEMENT i))"
    by (rule impI) (rule save_movement_event_forces_type)
  show "save_treatment_event now x t db = (Inr (x', t'), db') \<longrightarrow>
        ev_event_type x' = TREATMENT
        \<and> (\<exists>i. ev_id x' = Some i
              \<and> (\<forall>r \<in> set (events db'). ev_id r = i \<longrightarrow> ev_event_type r = TREATMENT)
              \<and> (tr_id t = None \<longrightarrow> tr_event_id t' = Some i \<and> has_detail db' TREATMENT i))"
    by (rule impI) (rule save_treatment_event_forces_type)
  show "save_weigh_event now x w db = (Inr (x', w'), db') \<longrightarrow>
        ev_event_type x' = WEIGH
        \<and> (\<exists>i. ev_id x' = Some i
              \<and> (\<forall>r \<in> set (events db'). ev_id r = i \<longrightarrow> ev_event_type r = WEIGH)
              \<and> (wg_id w = None \<longrightarrow> wg_event_id w' = Some i \<and> has_detail db' WEIGH i))"
    by (rule impI) (rule save_weigh_event_forces_type)
qed

theorem C9_detail_iff_typed_insert_witness:
  "detail_iff_recorded (run typed_commands empty_db) (typed_inserts typed_commands empty_db)
   \<and> map (\<lambda>e. (ev_id e, ev_event_type e)) (events (run typed_commands empty_db))
       = [(1, TREATMENT), (2, WEIGH), (3, TREATMENT)]
   \<and> typed_inserts typed_commands empty_db = [(TREATMENT, 1), (WEIGH, 2)]
   \<and> map tr_event_id (treatment_events (run typed_commands empty_db)) = [1]
   \<and> map wg_event_id (weigh_events (run typed_commands empty_db)) = [2]
   \<and> (\<exists>x' m' db'. save_movement_event 2 (new_event 738895 1) new_movement one_animal_db
                        = (Inr (x', m'), db')
          \<and> ev_event_type x' = MOVEMENT
          \<and> (\<exists>i. ev_id x' = Some i \<and> mv_event_id m' = Some i \<and> has_detail db' MOVEMENT i))
   \<and> (\<exists>x' t' db'. save_treatment_event 2 (new_event 738895 1) (new_treatment None) one_animal_db
                        = (Inr (x', t'), db')
          \<and> ev_event_type x' = TREATMENT
          \<and> (\<exists>i. ev_id x' = Some i \<and> tr_event_id t' = Some i \<and> has_detail db' TREATMENT i))
   \<and> (\<exists>x' w' db'. save_weigh_event 2 (new_event 738895 1) (new_weigh 100) one_animal_db
                        = (Inr (x', w'), db')
          \<and> ev_event_type x' = WEIGH
          \<and> (\<exists>i. ev_id x' = Some i \<and> wg_event_id w' = Some i \<and> has_detail db' WEIGH i))"
proof -
  have v: "map (\<lambda>e. (ev_id e, ev_event_type e)) (events (run typed_commands empty_db))
       = [(1, TREATMENT), (2, WEIGH), (3, TREATMENT)]"
      "typed_inserts typed_commands empty_db = [(TREATMENT, 1), (WEIGH, 2)]"
      "map tr_event_id (treatment_events (run typed_commands empty_db)) = [1]"
      "map wg_event_id (weigh_events (run typed_commands empty_db)) = [2]"
    by code_simp+
  have "\<not> isl (fst (save_movement_event 2 (new_event 738895 1) new_movement one_animal_db))"
      "\<not> isl (fst (save_treatment_event 2 (new_event 738895 1) (new_treatment None)
                      one_animal_db))"
      "\<not> isl (fst (save_weigh_event 2 (new_event 738895 1) (new_weigh 100) one_animal_db))"
    by code_simp+
  then obtain xm m' dbm xt t' dbt xw w' dbw where
    m: "save_movement_event 2 (new_event 738895 1) new_movement one_animal_db
          = (Inr (xm, m'), dbm)" and
    t: "save_treatment_event 2 (new_event 738895 1) (new_treatment None) one_animal_db
          = (Inr (xt, t'), dbt)" and
    w: "save_weigh_event 2 (new_event 738895 1) (new_weigh 100) one_animal_db
          = (Inr (xw, w'), dbw)"
    by (metis isl_def prod.collapse sum.collapse(2))
  have n: "mv_id new_movement = None" "tr_id (new_treatment None) = None"
      "wg_id (new_weigh 100) = None"
    by (simp_all add: new_movement_def new_treatment_def new_weigh_def)
  from C9_detail_iff_typed_insert
         [where cs = typed_commands and now = 2 and x = "new_event 738895 1"
            and db = one_animal_db and m = new_movement and x' = xm and m' = m' and db' = dbm]
       m n(1)
  have a: "ev_event_type xm = MOVEMENT
      \<and> (\<exists>i. ev_id xm = Some i \<and> mv_event_id m' = Some i \<and> has_detail dbm MOVEMENT i)"
    and d: "detail_iff_recorded (run typed_commands empty_db)
      (typed_inserts typed_commands empty_db)"
    by blast+
  from C9_detail_iff_typed_insert
         [where now = 2 and x = "new_event 738895 1" and db = one_animal_db
            and t = "new_treatment None" and x' = xt and t' = t' and db' = dbt]
       t n(2)
  have b: "ev_event_type xt = TREATMENT
      \<and> (\<exists>i. ev_id xt = Some i \<and> tr_event_id t' = Some i \<and> has_detail dbt TREATMENT i)"
    by blast
  from C9_detail_iff_typed_insert
         [where now = 2 and x = "new_event 738895 1" and db = one_animal_db
            and w = "new_weigh 100" and x' = xw and w' = w' and db' = dbw]
       w n(3)
  have c: "ev_event_type xw = WEIGH
      \<and> (\<exists>i. ev_id xw = Some i \<and> wg_event_id w' = Some i \<and> has_detail dbw WEIGH i)"
    by blast
  from m a have a': "\<exists>x' m' db'. save_movement_event 2 (new_event 738895 1) new_movement
        one_animal_db = (Inr (x', m'), db')
          \<and> ev_event_type x' = MOVEMENT
          \<and> (\<exists>i. ev_id x' = Some i \<and> mv_event_id m' = Some i \<and> has_detail db' MOVEMENT i)"
    by blast
  from t b have b': "\<exists>x' t' db'. save_treatment_event 2 (new_event 738895 1)
        (new_treatment None) one_animal_db = (Inr (x', t'), db')
          \<and> ev_event_type x' = TREATMENT
          \<and> (\<exists>i. ev_id x' = Some i \<and> tr_event_id t' = Some i \<and> has_detail db' TREATMENT i)"
    by blast
  from w c have c': "\<exists>x' w' db'. save_weigh_event 2 (new_event 738895 1) (new_weigh 100)
        one_animal_db = (Inr (x', w'), db')
          \<and> ev_event_type x' = WEIGH
          \<and> (\<exists>i. ev_id x' = Some i \<and> wg_event_id w' = Some i \<and> has_detail db' WEIGH i)"
    by blast
  from d v a' b' c' show ?thesis
    by (intro conjI)
qed


subsection \<open>Constraints the store keeps\<close>

lemma save_event_keeps:
  "animals (snd (save_event now x db)) = animals db"
  "set (map ev_id (events db)) \<subseteq> set (map ev_id (events (snd (save_event now x db))))"
proof -
  show "animals (snd (save_event now x db)) = animals db"
    by (simp add: save_event_def Let_def split: option.split)
  have "map ev_id (sql_update P (\<lambda>r. r\<lparr>ev_event_type := ev_event_type x,
                              ev_event_date := ev_event_date x,
                              ev_animal_id := ev_animal_id x,
                              ev_mob_id := ev_mob_id x, ev_notes := ev_notes x,
                              ev_recorded_by := ev_recorded_by x\<rparr>) (events db))
        = map ev_id (events db)" for P
    by (rule map_sql_update_id) simp
  then show "set (map ev_id (events db)) \<subseteq> set (map ev_id (events (snd (save_event now x db))))"
    by (auto simp: save_event_def Let_def simp del: set_map split: option.split)
qed

lemma typed_save_keeps:
  "animals (snd (save_movement_event now x m db)) = animals db"
  "animals (snd (save_treatment_event now x t db)) = animals db"
  "animals (snd (save_weigh_event now x w db)) = animals db"
  "set (map ev_id (events db)) \<subseteq> set (map ev_id (events (snd (save_movement_event now x m db))))"
  "set (map ev_id (events db)) \<subseteq> set (map ev_id (events (snd (save_treatment_event now x t db))))"
  "set (map ev_id (events db)) \<subseteq> set (map ev_id (events (snd (save_weigh_event now x w db))))"
proof -
  obtain rm dbm where m: "save_event now (x\<lparr>ev_event_type := MOVEMENT\<rparr>) db = (rm, dbm)"
    by (cases "save_event now (x\<lparr>ev_event_type := MOVEMENT\<rparr>) db")
  obtain rt dbt where t: "save_event now (x\<lparr>ev_event_type := TREATMENT\<rparr>) db = (rt, dbt)"
    by (cases "save_event now (x\<lparr>ev_event_type := TREATMENT\<rparr>) db")
  obtain rw dbw where w: "save_event now (x\<lparr>ev_event_type := WEIGH\<rparr>) db = (rw, dbw)"
    by (cases "save_event now (x\<lparr>ev_event_type := WEIGH\<rparr>) db")
  have km: "animals dbm = animals db" "set (map ev_id (events db)) \<subseteq> set (map ev_id (events dbm))"
    using save_event_keeps [where now = now and x = "x\<lparr>ev_event_type := MOVEMENT\<rparr>" and db = db] m by simp_all
  have kt: "animals dbt = animals db" "set (map ev_id (events db)) \<subseteq> set (map ev_id (events dbt))"
    using save_event_keeps [where now = now and x = "x\<lparr>ev_event_type := TREATMENT\<rparr>" and db = db] t by simp_all
  have kw: "animals dbw = animals db" "set (map ev_id (events db)) \<subseteq> set (map ev_id (events dbw))"
    using save_event_keeps [where now = now and x = "x\<lparr>ev_event_type := WEIGH\<rparr>" and db = db] w by simp_all
  show "animals (snd (save_movement_event now x m db)) = animals db"
    using km(1) by (simp add: save_movement_event_def m Let_def split: sum.split option.split)
  show "animals (snd (save_treatment_event now x t db)) = animals db"
    using kt(1) by (simp add: save_treatment_event_def t Let_def split: sum.split option.split)
  show "animals (snd (save_weigh_event now x w db)) = animals db"
    using kw(1) by (simp add: save_weigh_event_def w Let_def split: sum.split option.split)
  show "set (map ev_id (events db)) \<subseteq> set (map ev_id (events (snd (save_movement_event now x m db))))"
    using km(2) by (simp add: save_movement_event_def m Let_def split: sum.split option.split)
  show "set (map ev_id (events db)) \<subseteq> set (map ev_id (events (snd (save_treatment_event now x t db))))"
    using kt(2) by (simp add: save_treatment_event_def t Let_def split: sum.split option.split)
  show "set (map ev_id (events db)) \<subseteq> set (map ev_id (events (snd (save_weigh_event now x w db))))"
    using kw(2) by (simp add: save_weigh_event_def w Let_def split: sum.split option.split)
qed

lemma save_treatment_event_references:
  assumes "set (map tr_event_id (treatment_events db)) \<subseteq> set (map ev_id (events db))"
  shows "set (map tr_event_id (treatment_events (snd (save_treatment_event now x t db))))
           \<subseteq> set (map ev_id (events (snd (save_treatment_event now x t db))))"
proof -
  obtain r db1 where eq: "save_event now (x\<lparr>ev_event_type := TREATMENT\<rparr>) db = (r, db1)"
    by (cases "save_event now (x\<lparr>ev_event_type := TREATMENT\<rparr>) db")
  have "treatment_events db1 = treatment_events db"
    and "set (map ev_id (events db)) \<subseteq> set (map ev_id (events db1))"
    using save_event_details(2) [of now "x\<lparr>ev_event_type := TREATMENT\<rparr>" db]
      save_event_keeps(2) [of db now "x\<lparr>ev_event_type := TREATMENT\<rparr>"] eq by simp_all
  with assms have a: "tr_event_id ` set (treatment_events db1) \<subseteq> ev_id ` set (events db1)"
    by auto
  have "tr_event_id ` set (sql_update P (\<lambda>r. r\<lparr>tr_product_id := tr_product_id t,
                                    tr_batch_number := tr_batch_number t,
                                    tr_dose := tr_dose t,
                                    tr_route := tr_route t,
                                    tr_administered_by := tr_administered_by t,
                                    tr_meat_whp_end := tr_meat_whp_end t,
                                    tr_milk_whp_end := tr_milk_whp_end t,
                                    tr_esi_end := tr_esi_end t\<rparr>) (treatment_events db1))
        = tr_event_id ` set (treatment_events db1)" for P
    by (rule image_sql_update) simp
  with a show ?thesis
    by (auto simp: save_treatment_event_def eq Let_def split: sum.split option.split)
qed


lemma fk_ok_mono: "fk_ok r ids \<Longrightarrow> set ids \<subseteq> set ids' \<Longrightarrow> fk_ok r ids'"
  by (auto simp: fk_ok_def split: option.splits)

lemma save_animal_constraints:
  assumes d: "distinct (map an_id (animals db))"
    and fk: "\<forall>r \<in> set (animals db). fk_ok (an_dam_id r) (map an_id (animals db))
                                  \<and> fk_ok (an_sire_id r) (map an_id (animals db))"
  shows "distinct (map an_id (animals (snd (save_animal now x db))))"
    and "\<forall>r \<in> set (animals (snd (save_animal now x db))).
           fk_ok (an_dam_id r) (map an_id (animals (snd (save_animal now x db))))
           \<and> fk_ok (an_sire_id r) (map an_id (animals (snd (save_animal now x db))))"
proof -
  let ?db' = "snd (save_animal now x db)"
  let ?new = "next_rowid (map an_id (animals db)) (sqlite_sequence db T_animals)"
  let ?upd = "\<lambda>r. r\<lparr>an_eid := an_eid x, an_visual_tag := an_visual_tag x,
                       an_species := an_species x, an_breed := an_breed x,
                       an_sex := an_sex x, an_date_of_birth := an_date_of_birth x,
                       an_status := an_status x, an_mob_id := an_mob_id x,
                       an_dam_id := an_dam_id x, an_sire_id := an_sire_id x,
                       an_notes := an_notes x, an_updated_at := Some now\<rparr>"
  have ins: "animals ?db' = animals db
      \<or> (\<exists>row. animals ?db' = animals db @ [row] \<and> an_id row = ?new
            \<and> fk_ok (an_dam_id row) (?new # map an_id (animals db))
            \<and> fk_ok (an_sire_id row) (?new # map an_id (animals db)))"
    if "an_id x = None"
    using that by (simp add: save_animal_def Let_def)
  have upd: "animals ?db' = animals db
      \<or> (animals ?db' = sql_update (\<lambda>r. an_id r = i) ?upd (animals db)
            \<and> (i \<in> set (map an_id (animals db)) \<longrightarrow>
                 fk_ok (an_dam_id x) (map an_id (animals db))
                 \<and> fk_ok (an_sire_id x) (map an_id (animals db))))"
    if "an_id x = Some i" for i
    using that by (simp add: save_animal_def)
  have "animals ?db' = animals db
      \<or> (\<exists>row. animals ?db' = animals db @ [row] \<and> an_id row = ?new
            \<and> fk_ok (an_dam_id row) (?new # map an_id (animals db))
            \<and> fk_ok (an_sire_id row) (?new # map an_id (animals db)))
      \<or> (\<exists>i. animals ?db' = sql_update (\<lambda>r. an_id r = i) ?upd (animals db)
            \<and> (i \<in> set (map an_id (animals db)) \<longrightarrow>
                 fk_ok (an_dam_id x) (map an_id (animals db))
                 \<and> fk_ok (an_sire_id x) (map an_id (animals db))))"
  proof (cases "an_id x")
    case None
    from ins [OF this] show ?thesis by blast
  next
    case (Some i)
    from upd [OF this] show ?thesis by blast
  qed
  then consider (unchanged) "animals ?db' = animals db"
    | (inserted) row where "animals ?db' = animals db @ [row]" "an_id row = ?new"
        "fk_ok (an_dam_id row) (?new # map an_id (animals db))"
        "fk_ok (an_sire_id row) (?new # map an_id (animals db))"
    | (updated) i where "animals ?db' = sql_update (\<lambda>r. an_id r = i) ?upd (animals db)"
        "i \<in> set (map an_id (animals db)) \<longrightarrow>
           fk_ok (an_dam_id x) (map an_id (animals db))
           \<and> fk_ok (an_sire_id x) (map an_id (animals db))"
    by blast
  then have "distinct (map an_id (animals ?db'))
    \<and> (\<forall>r \<in> set (animals ?db'). fk_ok (an_dam_id r) (map an_id (animals ?db'))
                                  \<and> fk_ok (an_sire_id r) (map an_id (animals ?db')))"
  proof cases
    case unchanged
    with d fk show ?thesis
      by simp
  next
    case inserted
    have ids: "map an_id (animals ?db') = map an_id (animals db) @ [?new]"
      by (simp add: inserted)
    have one: "distinct (map an_id (animals ?db'))"
      unfolding ids using d next_rowid_fresh [of "map an_id (animals db)"] by simp
    have sub: "set (map an_id (animals db)) \<subseteq> set (map an_id (animals ?db'))"
        "set (?new # map an_id (animals db)) \<subseteq> set (map an_id (animals ?db'))"
      unfolding ids by auto
    have two: "\<forall>r \<in> set (animals ?db'). fk_ok (an_dam_id r) (map an_id (animals ?db'))
                                  \<and> fk_ok (an_sire_id r) (map an_id (animals ?db'))"
    proof
      fix r assume "r \<in> set (animals ?db')"
      then consider "r \<in> set (animals db)" | "r = row"
        by (auto simp: inserted(1))
      then show "fk_ok (an_dam_id r) (map an_id (animals ?db'))
                 \<and> fk_ok (an_sire_id r) (map an_id (animals ?db'))"
      proof cases
        case 1
        with fk sub(1) show ?thesis by (blast intro: fk_ok_mono)
      next
        case 2
        with inserted(3,4) sub(2) show ?thesis by (blast intro: fk_ok_mono)
      qed
    qed
    from one two show ?thesis ..
  next
    case updated
    have ids: "map an_id (animals ?db') = map an_id (animals db)"
      unfolding updated(1) by (rule map_sql_update_id) simp
    have one: "distinct (map an_id (animals ?db'))"
      unfolding ids by (rule d)
    have two: "\<forall>r \<in> set (animals ?db'). fk_ok (an_dam_id r) (map an_id (animals ?db'))
                                  \<and> fk_ok (an_sire_id r) (map an_id (animals ?db'))"
      unfolding ids
    proof
      fix r assume "r \<in> set (animals ?db')"
      then obtain r0 where r0: "r0 \<in> set (animals db)"
          "r = (if an_id r0 = i then ?upd r0 else r0)"
        unfolding updated(1) sql_update_def by auto
      show "fk_ok (an_dam_id r) (map an_id (animals db))
            \<and> fk_ok (an_sire_id r) (map an_id (animals db))"
      proof (cases "an_id r0 = i")
        case True
        with r0 have "i \<in> set (map an_id (animals db))" by auto
        with updated(2) r0(2) True show ?thesis by simp
      next
        case False
        with r0 fk show ?thesis by simp
      qed
    qed
    from one two show ?thesis ..
  qed
  then show "distinct (map an_id (animals ?db'))"
    and "\<forall>r \<in> set (animals ?db'). fk_ok (an_dam_id r) (map an_id (animals ?db'))
                                  \<and> fk_ok (an_sire_id r) (map an_id (animals ?db'))"
    by blast+
qed

lemma delete_animal_constraints:
  assumes d: "distinct (map an_id (animals db))"
    and fk: "\<forall>r \<in> set (animals db). fk_ok (an_dam_id r) (map an_id (animals db))
                                  \<and> fk_ok (an_sire_id r) (map an_id (animals db))"
  shows "distinct (map an_id (animals (snd (delete_animal i db))))"
    and "\<forall>r \<in> set (animals (snd (delete_animal i db))).
           fk_ok (an_dam_id r) (map an_id (animals (snd (delete_animal i db))))
           \<and> fk_ok (an_sire_id r) (map an_id (animals (snd (delete_animal i db))))"
proof -
  let ?db' = "snd (delete_animal i db)"
  have "animals ?db' = animals db
      \<or> (animals ?db' = filter (\<lambda>r. an_id r \<noteq> i) (animals db)
          \<and> Some i \<notin> set (map an_dam_id (filter (\<lambda>r. an_id r \<noteq> i) (animals db)))
          \<and> Some i \<notin> set (map an_sire_id (filter (\<lambda>r. an_id r \<noteq> i) (animals db))))"
  proof (cases "i \<in> set (map an_id (animals db))")
    case True
    then show ?thesis
      by (simp add: delete_animal_def sql_delete_def del: set_map)
  next
    case False
    then have "filter (\<lambda>r. an_id r \<noteq> i) (animals db) = animals db"
      by (auto simp: filter_id_conv)
    with False show ?thesis
      by (simp add: delete_animal_def sql_delete_def del: set_map)
  qed
  then consider (unchanged) "animals ?db' = animals db"
    | (deleted) "animals ?db' = filter (\<lambda>r. an_id r \<noteq> i) (animals db)"
        "Some i \<notin> set (map an_dam_id (filter (\<lambda>r. an_id r \<noteq> i) (animals db)))"
        "Some i \<notin> set (map an_sire_id (filter (\<lambda>r. an_id r \<noteq> i) (animals db)))"
    by blast
  then have "distinct (map an_id (animals ?db'))
    \<and> (\<forall>r \<in> set (animals ?db'). fk_ok (an_dam_id r) (map an_id (animals ?db'))
                                  \<and> fk_ok (an_sire_id r) (map an_id (animals ?db')))"
  proof cases
    case unchanged
    with d fk show ?thesis
      by simp
  next
    case deleted
    have one: "distinct (map an_id (animals ?db'))"
      unfolding deleted(1) using d by (rule distinct_map_filter)
    have ids: "set (map an_id (animals ?db')) = set (map an_id (animals db)) - {i}"
      unfolding deleted(1) by auto
    have two: "\<forall>r \<in> set (animals ?db'). fk_ok (an_dam_id r) (map an_id (animals ?db'))
                                  \<and> fk_ok (an_sire_id r) (map an_id (animals ?db'))"
    proof
      fix r assume r: "r \<in> set (animals ?db')"
      then have r0: "r \<in> set (animals db)" "r \<in> set (filter (\<lambda>r. an_id r \<noteq> i) (animals db))"
        by (simp_all add: deleted(1))
      from r0(2) deleted(2,3) have "an_dam_id r \<noteq> Some i" "an_sire_id r \<noteq> Some i"
        by force+
      moreover from r0(1) fk have "fk_ok (an_dam_id r) (map an_id (animals db))"
          "fk_ok (an_sire_id r) (map an_id (animals db))"
        by simp_all
      ultimately show "fk_ok (an_dam_id r) (map an_id (animals ?db'))
                 \<and> fk_ok (an_sire_id r) (map an_id (animals ?db'))"
        using ids by (auto simp: fk_ok_def split: option.splits)
    qed
    from one two show ?thesis ..
  qed
  then show "distinct (map an_id (animals ?db'))"
    and "\<forall>r \<in> set (animals ?db'). fk_ok (an_dam_id r) (map an_id (animals ?db'))
                                  \<and> fk_ok (an_sire_id r) (map an_id (animals ?db'))"
    by blast+
qed


lemma exec_store_constraints:
  assumes "store_constraints db"
  shows "store_constraints (exec c db)"
proof -
  from assms have d: "distinct (map an_id (animals db))"
    and fk: "\<forall>r \<in> set (animals db). fk_ok (an_dam_id r) (map an_id (animals db))
                                  \<and> fk_ok (an_sire_id r) (map an_id (animals db))"
    and ref: "set (map tr_event_id (treatment_events db)) \<subseteq> set (map ev_id (events db))"
    by (simp_all add: store_constraints_def)
  have same: "store_constraints db'"
    if "animals db' = animals db" "treatment_events db' = treatment_events db"
       "set (map ev_id (events db)) \<subseteq> set (map ev_id (events db'))" for db'
    using that d fk ref unfolding store_constraints_def by (simp del: set_map)
  show ?thesis
  proof (cases c)
    case (Save_animal now x)
    have "events (exec c db) = events db" "treatment_events (exec c db) = treatment_events db"
      by (simp_all add: Save_animal save_animal_def Let_def split: option.split)
    with save_animal_constraints [OF d fk, of now x] ref show ?thesis
      by (simp add: store_constraints_def Save_animal del: set_map)
  next
    case (Delete_animal i)
    have "events (exec c db) = events db" "treatment_events (exec c db) = treatment_events db"
      by (simp_all add: Delete_animal delete_animal_def)
    with delete_animal_constraints [OF d fk, of i] ref show ?thesis
      by (simp add: store_constraints_def Delete_animal del: set_map)
  next
    case (Save_event now x)
    show ?thesis
      unfolding Save_event exec.simps
      by (rule same) (simp_all add: save_event_keeps save_event_details del: set_map)
  next
    case (Save_movement_event now x m)
    show ?thesis
      unfolding Save_movement_event exec.simps
      by (rule same) (simp_all add: typed_save_keeps save_movement_event_others del: set_map)
  next
    case (Save_weigh_event now x w)
    show ?thesis
      unfolding Save_weigh_event exec.simps
      by (rule same) (simp_all add: typed_save_keeps save_weigh_event_others del: set_map)
  next
    case (Save_treatment_event now x t)
    from save_treatment_event_references [OF ref, of now x t] d fk show ?thesis
      by (simp add: store_constraints_def Save_treatment_event typed_save_keeps del: set_map)
  next
    case (Save_paddock now x)
    show ?thesis
      unfolding Save_paddock exec.simps
      by (rule same) (simp_all add: save_paddock_def Let_def split: option.split)
  next
    case (Delete_paddock i)
    show ?thesis
      unfolding Delete_paddock exec.simps
      by (rule same) (simp_all add: delete_paddock_def)
  next
    case (Save_mob now x)
    show ?thesis
      unfolding Save_mob exec.simps
      by (rule same) (simp_all add: save_mob_def Let_def split: option.split)
  next
    case (Delete_mob i)
    show ?thesis
      unfolding Delete_mob exec.simps
      by (rule same) (simp_all add: delete_mob_def)
  next
    case (Save_product now x)
    show ?thesis
      unfolding Save_product exec.simps
      by (rule same) (simp_all add: save_product_def Let_def split: option.split)
  next
    case (Delete_product i)
    show ?thesis
      unfolding Delete_product exec.simps
      by (rule same) (simp_all add: delete_product_def)
  next
    case (Save_task now x)
    show ?thesis
      unfolding Save_task exec.simps
      by (rule same) (simp_all add: save_task_def Let_def split: option.split)
  next
    case (Complete_task now i)
    show ?thesis
      unfolding Complete_task exec.simps
      by (rule same) (simp_all add: complete_task_def)
  next
    case (Delete_task i)
    show ?thesis
      unfolding Delete_task exec.simps
      by (rule same) (simp_all add: delete_task_def)
  next
    case (Save_property_settings now x)
    show ?thesis
      unfolding Save_property_settings exec.simps
      by (rule same) (simp_all add: save_property_settings_def Let_def split: option.split)
  qed
qed

lemma run_store_constraints: "store_constraints db \<Longrightarrow> store_constraints (run cs db)"
  by (induction cs arbitrary: db) (simp_all add: exec_store_constraints del: exec.simps)

text \<open>
  Every store reached from the empty one by the operations of the database class keeps
  its constraints: animal ids are distinct (primary key), every dam and sire names a
  stored animal (foreign keys), and every treatment row names a stored event.
\<close>

lemma reachable_store_constraints: "store_constraints (run cs empty_db)"
  by (rule run_store_constraints) (simp add: store_constraints_def empty_db_def)


end
